theory Spec2Isabelle
  imports Main
begin

section \<open>Strings and the regular expressions of the source\<close>

text \<open>
  Python strings are modelled as \<^typ>\<open>string\<close>: a list of characters, one \<^typ>\<open>char\<close>
  per code point, for the code points 0 to 255. The character classes below are
  the ones Python's \<^verbatim>\<open>re\<close> module uses for \<^verbatim>\<open>str\<close> patterns, restricted to that range.
\<close>

definition is_digit :: "char \<Rightarrow> bool" where
  \<comment> \<open>\<^verbatim>\<open>\d\<close>: the decimal digits\<close>
  "is_digit c = (48 \<le> (of_char c :: nat) \<and> (of_char c :: nat) \<le> 57)"

definition is_space :: "char \<Rightarrow> bool" where
  \<comment> \<open>\<^verbatim>\<open>\s\<close>: tab to carriage return, the separators 28 to 31, space, NEL and NBSP\<close>
  "is_space c =
     (let n = (of_char c :: nat)
      in (9 \<le> n \<and> n \<le> 13) \<or> (28 \<le> n \<and> n \<le> 32) \<or> n = 133 \<or> n = 160)"

definition is_word :: "char \<Rightarrow> bool" where
  \<comment> \<open>\<^verbatim>\<open>\w\<close>: the alphanumeric characters and the underscore\<close>
  "is_word c =
     (let n = (of_char c :: nat)
      in (48 \<le> n \<and> n \<le> 57) \<or> (65 \<le> n \<and> n \<le> 90) \<or> n = 95 \<or> (97 \<le> n \<and> n \<le> 122)
         \<or> n = 170 \<or> n = 178 \<or> n = 179 \<or> n = 181 \<or> n = 185 \<or> n = 186
         \<or> (188 \<le> n \<and> n \<le> 190) \<or> (192 \<le> n \<and> n \<le> 214) \<or> (216 \<le> n \<and> n \<le> 246)
         \<or> 248 \<le> n)"

definition name_char :: "char \<Rightarrow> bool" where
  \<comment> \<open>the class \<^verbatim>\<open>[^/\s]\<close>\<close>
  "name_char c = (c \<noteq> CHR ''/'' \<and> \<not> is_space c)"

fun lit :: "string \<Rightarrow> string \<Rightarrow> string option" where
  \<comment> \<open>a literal at the start of the text: the rest of the text after it\<close>
  "lit [] s = Some s"
| "lit (p # ps) [] = None"
| "lit (p # ps) (c # cs) = (if p = c then lit ps cs else None)"

definition opt_lit :: "string \<Rightarrow> string \<Rightarrow> string" where
  \<comment> \<open>an optional literal \<^verbatim>\<open>(?:p)?\<close>, taken when it is there\<close>
  "opt_lit p s = (case lit p s of Some r \<Rightarrow> r | None \<Rightarrow> s)"

fun re_search :: "(string \<Rightarrow> 'a option) \<Rightarrow> string \<Rightarrow> 'a option" where
  \<comment> \<open>\<^verbatim>\<open>re.search\<close>: the match at the leftmost position where the pattern matches\<close>
  "re_search m [] = m []"
| "re_search m (c # cs) = (case m (c # cs) of Some r \<Rightarrow> Some r | None \<Rightarrow> re_search m cs)"

fun contains :: "string \<Rightarrow> string \<Rightarrow> bool" where
  \<comment> \<open>Python's \<^verbatim>\<open>sub in s\<close>\<close>
  "contains sub [] = (sub = [])"
| "contains sub (c # cs) = (lit sub (c # cs) \<noteq> None \<or> contains sub cs)"

section \<open>utils/url\_parser.py\<close>

datatype SourceType = FASTMCP | SMITHERY | UNKNOWN

text \<open>
  \<^verbatim>\<open>FASTMCP_PATTERN = https?://(?:www\.)?fastmcp\.me/MCP/Details/(\d+)/([^/\s]+)\<close>,
  used with \<^verbatim>\<open>match\<close>, which anchors the pattern at the start of the text and accepts
  any text after it. The result is the pair of groups 1 and 2. Each optional part
  and each repetition is followed by a character it cannot itself begin with or
  contain, so the greedy choice is the only one that can succeed.
\<close>

definition FASTMCP_PATTERN_match :: "string \<Rightarrow> (string \<times> string) option" where
  "FASTMCP_PATTERN_match url =
     (case lit ''http'' url of None \<Rightarrow> None | Some r0 \<Rightarrow>
      case lit ''://'' (opt_lit ''s'' r0) of None \<Rightarrow> None | Some r1 \<Rightarrow>
      case lit ''fastmcp.me/MCP/Details/'' (opt_lit ''www.'' r1) of None \<Rightarrow> None | Some r2 \<Rightarrow>
      if takeWhile is_digit r2 = [] then None else
      case lit ''/'' (dropWhile is_digit r2) of None \<Rightarrow> None | Some r3 \<Rightarrow>
      if takeWhile name_char r3 = [] then None
      else Some (takeWhile is_digit r2, takeWhile name_char r3))"

text \<open>
  \<^verbatim>\<open>SMITHERY_PATTERN = https?://(?:server\.)?smithery\.ai/(?:server/)?([^/\s]+)\<close>.
  The optional \<^verbatim>\<open>server/\<close> is followed by a group that can begin with the same
  characters: when the text after \<^verbatim>\<open>server/\<close> has no name, the matcher backtracks and
  the group is the word \<^verbatim>\<open>server\<close> itself.
\<close>

definition SMITHERY_PATTERN_match :: "string \<Rightarrow> string option" where
  "SMITHERY_PATTERN_match url =
     (case lit ''http'' url of None \<Rightarrow> None | Some r0 \<Rightarrow>
      case lit ''://'' (opt_lit ''s'' r0) of None \<Rightarrow> None | Some r1 \<Rightarrow>
      case lit ''smithery.ai/'' (opt_lit ''server.'' r1) of None \<Rightarrow> None | Some r2 \<Rightarrow>
      (case lit ''server/'' r2 of
         Some r3 \<Rightarrow>
           if takeWhile name_char r3 \<noteq> [] then Some (takeWhile name_char r3)
           else if takeWhile name_char r2 \<noteq> [] then Some (takeWhile name_char r2)
           else None
       | None \<Rightarrow>
           if takeWhile name_char r2 \<noteq> [] then Some (takeWhile name_char r2) else None))"

definition detect_source :: "string \<Rightarrow> SourceType" where
  "detect_source url =
     (if FASTMCP_PATTERN_match url \<noteq> None then FASTMCP
      else if SMITHERY_PATTERN_match url \<noteq> None then SMITHERY
      else UNKNOWN)"

definition server_smithery_match :: "string \<Rightarrow> string option" where
  \<comment> \<open>\<^verbatim>\<open>server\.smithery\.ai/([^/\s]+)\<close> at the start of the text: group 1\<close>
  "server_smithery_match s =
     (case lit ''server.smithery.ai/'' s of None \<Rightarrow> None | Some r \<Rightarrow>
      if takeWhile name_char r = [] then None else Some (takeWhile name_char r))"

definition normalize_url :: "string \<Rightarrow> string" where
  "normalize_url url =
     (if contains ''server.smithery.ai'' url then
        (case re_search server_smithery_match url of
           Some server_name \<Rightarrow> ''https://smithery.ai/server/'' @ server_name
         | None \<Rightarrow> url)
      else url)"

definition extract_mcp_name :: "string \<Rightarrow> string option" where
  "extract_mcp_name url =
     (case FASTMCP_PATTERN_match url of Some (_, g2) \<Rightarrow> Some g2
      | None \<Rightarrow> SMITHERY_PATTERN_match url)"

definition FastMCPSource_can_handle :: "string \<Rightarrow> bool" where
  "FastMCPSource_can_handle url = (FASTMCP_PATTERN_match url \<noteq> None)"

definition SmitherySource_can_handle :: "string \<Rightarrow> bool" where
  "SmitherySource_can_handle url = (SMITHERY_PATTERN_match url \<noteq> None)"

section \<open>Python helpers\<close>

definition py_or :: "'a list \<Rightarrow> 'a list \<Rightarrow> 'a list" where
  \<comment> \<open>\<^verbatim>\<open>x or d\<close> on strings and lists: the empty value is falsy\<close>
  "py_or x d = (if x = [] then d else x)"

definition lower_char :: "char \<Rightarrow> char" where
  "lower_char c =
     (let n = (of_char c :: nat)
      in if (65 \<le> n \<and> n \<le> 90) \<or> (192 \<le> n \<and> n \<le> 214) \<or> (216 \<le> n \<and> n \<le> 222)
         then char_of (n + 32) else c)"

definition lower :: "string \<Rightarrow> string" where
  \<comment> \<open>\<^verbatim>\<open>str.lower\<close>\<close>
  "lower s = map lower_char s"

definition replace_char :: "char \<Rightarrow> char \<Rightarrow> string \<Rightarrow> string" where
  \<comment> \<open>\<^verbatim>\<open>str.replace\<close> of one character by another\<close>
  "replace_char a b s = map (\<lambda>c. if c = a then b else c) s"

definition strip_chars :: "(char \<Rightarrow> bool) \<Rightarrow> string \<Rightarrow> string" where
  \<comment> \<open>\<^verbatim>\<open>str.strip\<close>: the characters of the class removed at both ends\<close>
  "strip_chars P s = rev (dropWhile P (rev (dropWhile P s)))"

function sub_runs :: "(char \<Rightarrow> bool) \<Rightarrow> string \<Rightarrow> string \<Rightarrow> string" where
  \<comment> \<open>\<^verbatim>\<open>re.sub("[class]+", rep, s)\<close>: every maximal run of the class replaced by \<open>rep\<close>\<close>
  "sub_runs P rep [] = []"
| "sub_runs P rep (c # cs) =
     (if P c then rep @ sub_runs P rep (dropWhile P cs) else c # sub_runs P rep cs)"
  by pat_completeness auto
termination
  by (relation "measure (\<lambda>(P, rep, s). length s)")
     (auto simp: length_dropWhile_le less_Suc_eq_le)

fun join :: "string \<Rightarrow> string list \<Rightarrow> string" where
  \<comment> \<open>\<^verbatim>\<open>sep.join(xs)\<close>\<close>
  "join sep [] = []"
| "join sep [x] = x"
| "join sep (x # y # ys) = x @ sep @ join sep (y # ys)"

section \<open>models/mcp\_info.py and models/plugin.py\<close>

record MCPTool =
  tool_name :: string
  tool_description :: string

record MCPInfo =
  name :: string
  description :: string
  author :: string
  tools :: "MCPTool list"
  install_command :: string
  install_args :: "string list"
  connection_type :: string
  http_url :: "string option"
  env_vars :: "string list"
  homepage :: "string option"
  source_url :: string

definition get_server_name :: "MCPInfo \<Rightarrow> string" where
  "get_server_name i = replace_char CHR ''_'' CHR ''-'' (replace_char CHR '' '' CHR ''-'' (lower (name i)))"

text \<open>A Python dictionary keeps its keys in insertion order; storing under a key that is
  present replaces the value where it stands.\<close>

fun dict_set :: "('k \<times> 'v) list \<Rightarrow> 'k \<Rightarrow> 'v \<Rightarrow> ('k \<times> 'v) list" where
  "dict_set [] k v = [(k, v)]"
| "dict_set ((k', v') # d) k v = (if k' = k then (k, v) # d else (k', v') # dict_set d k v)"

record MCPServerConfig =
  server_type :: "string option"
  command :: "string option"
  args :: "string list option"
  url :: "string option"
  headers :: "(string \<times> string) list option"
  env :: "(string \<times> string) list option"

record PluginAuthor =
  author_name :: string
  author_email :: "string option"

record PluginConfig =
  plugin_name :: string
  plugin_description :: string
  version :: string
  plugin_author :: "PluginAuthor option"
  plugin_homepage :: "string option"
  repository :: "string option"
  mcpServers :: "(string \<times> MCPServerConfig) list"

record MarketplacePlugin =
  entry_name :: string
  source :: string
  entry_description :: string
  category :: "string option"
  entry_homepage :: "string option"

record MarketplaceOwner =
  owner_name :: string
  owner_email :: "string option"

record MarketplaceConfig =
  marketplace_name :: string
  marketplace_description :: string
  owner :: MarketplaceOwner
  plugins :: "MarketplacePlugin list"

text \<open>The value \<^verbatim>\<open>model_dump\<close> returns and \<^verbatim>\<open>json.dump\<close> writes: a dictionary is the
  list of its items in order.\<close>

datatype json = JNull | JStr string | JList "json list" | JDict "(string \<times> json) list"

definition item :: "string \<Rightarrow> 'a option \<Rightarrow> ('a \<Rightarrow> json) \<Rightarrow> (string \<times> json) list" where
  \<comment> \<open>\<^verbatim>\<open>exclude_none=True\<close>: a field that is \<^verbatim>\<open>None\<close> gives no item\<close>
  "item k v f = (case v of None \<Rightarrow> [] | Some x \<Rightarrow> [(k, f x)])"

definition str_dict :: "(string \<times> string) list \<Rightarrow> json" where
  "str_dict d = JDict (map (\<lambda>(k, v). (k, JStr v)) d)"

definition MCPServerConfig_model_dump :: "MCPServerConfig \<Rightarrow> (string \<times> json) list" where
  "MCPServerConfig_model_dump c =
     item ''type'' (server_type c) JStr @
     item ''command'' (command c) JStr @
     item ''args'' (args c) (\<lambda>xs. JList (map JStr xs)) @
     item ''url'' (url c) JStr @
     item ''headers'' (headers c) str_dict @
     item ''env'' (env c) str_dict"

definition PluginAuthor_model_dump :: "PluginAuthor \<Rightarrow> json" where
  "PluginAuthor_model_dump a =
     JDict ([(''name'', JStr (author_name a))] @ item ''email'' (author_email a) JStr)"

definition PluginConfig_model_dump :: "PluginConfig \<Rightarrow> (string \<times> json) list" where
  "PluginConfig_model_dump p =
     [(''name'', JStr (plugin_name p)),
      (''description'', JStr (plugin_description p)),
      (''version'', JStr (version p))] @
     item ''author'' (plugin_author p) PluginAuthor_model_dump @
     item ''homepage'' (plugin_homepage p) JStr @
     item ''repository'' (repository p) JStr @
     [(''mcpServers'',
       JDict (map (\<lambda>(k, v). (k, JDict (filter (\<lambda>(kk, vv). vv \<noteq> JNull) (MCPServerConfig_model_dump v))))
                  (mcpServers p)))]"

section \<open>core/plugin\_generator.py\<close>

definition sanitize_name :: "string \<Rightarrow> string" where
  \<comment> \<open>\<^verbatim>\<open>PluginGenerator._sanitize_name\<close>\<close>
  "sanitize_name nm =
     (let sanitized = filter (\<lambda>c. is_word c \<or> is_space c \<or> c = CHR ''-'') (lower nm);
          sanitized = sub_runs (\<lambda>c. is_space c \<or> c = CHR ''_'') ''-'' sanitized;
          sanitized = sub_runs (\<lambda>c. c = CHR ''-'') ''-'' sanitized;
          sanitized = strip_chars (\<lambda>c. c = CHR ''-'') sanitized
      in py_or sanitized ''unknown-plugin'')"

definition create_plugin_config :: "MCPInfo \<Rightarrow> string \<Rightarrow> PluginConfig" where
  \<comment> \<open>\<^verbatim>\<open>PluginGenerator._create_plugin_config\<close>\<close>
  "create_plugin_config mcp_info pname =
     (let server_name = get_server_name mcp_info;
          server_config =
            (if connection_type mcp_info = ''http'' \<and> http_url mcp_info \<noteq> None
                \<and> http_url mcp_info \<noteq> Some []
             then \<lparr>server_type = Some ''http'', command = None, args = None,
                   url = http_url mcp_info, headers = None, env = None\<rparr>
             else \<lparr>server_type = None,
                   command = Some (py_or (install_command mcp_info) ''npx''),
                   args = Some (py_or (install_args mcp_info) [''-y'', ''mcp-server-'' @ pname]),
                   url = None, headers = None,
                   env = (if env_vars mcp_info \<noteq> []
                          then Some (fold (\<lambda>var d. dict_set d var (''${'' @ var @ ''}''))
                                          (env_vars mcp_info) [])
                          else None)\<rparr>);
          auth = (if author mcp_info \<noteq> [] then Some \<lparr>author_name = author mcp_info, author_email = None\<rparr>
                  else None)
      in \<lparr>plugin_name = pname,
          plugin_description = py_or (description mcp_info) (''MCP server: '' @ name mcp_info),
          version = ''1.0.0'',
          plugin_author = auth,
          plugin_homepage = homepage mcp_info,
          repository =
            (case homepage mcp_info of
               Some h \<Rightarrow> if h \<noteq> [] \<and> contains ''github'' h then Some h else None
             | None \<Rightarrow> None),
          mcpServers = [(server_name, server_config)]\<rparr>)"

section \<open>Paths, files and the effects of a run\<close>

text \<open>
  A \<^verbatim>\<open>pathlib.Path\<close> is the list of its parts; the part \<^verbatim>\<open>/\<close> in front makes it
  absolute. The file system maps a path to what the file holds: a catalog as
  \<^verbatim>\<open>json.dump\<close> wrote it, a plugin descriptor, or text that \<^verbatim>\<open>json.load\<close> or the model
  validation rejects. Every request to the network and every write of a file is
  recorded in the trace, in order. Directories and the failures of the operating
  system are not modelled.
\<close>

type_synonym path = "string list"

definition path_name :: "path \<Rightarrow> string" where
  \<comment> \<open>\<^verbatim>\<open>Path.name\<close>\<close>
  "path_name p = (case rev p of [] \<Rightarrow> [] | x # _ \<Rightarrow> if x = ''/'' then [] else x)"

definition path_str :: "path \<Rightarrow> string" where
  \<comment> \<open>\<^verbatim>\<open>str(path)\<close>\<close>
  "path_str p =
     (case p of [] \<Rightarrow> ''.''
      | x # xs \<Rightarrow> if x = ''/'' then ''/'' @ join ''/'' xs else join ''/'' (x # xs))"

definition relative_to :: "path \<Rightarrow> path \<Rightarrow> path option" where
  \<comment> \<open>\<^verbatim>\<open>Path.relative_to\<close>; \<open>None\<close> is the \<^verbatim>\<open>ValueError\<close>\<close>
  "relative_to p root =
     (if take (length root) p = root then Some (drop (length root) p) else None)"

datatype file_content =
    CatalogFile MarketplaceConfig
  | PluginFile "(string \<times> json) list"
  | Unreadable

datatype enhance_prompt =
  EnhancePrompt string string "string list" string "string list" string
  \<comment> \<open>what \<^verbatim>\<open>enhance_mcp_info\<close> puts in its prompt: name, description, tool names,
      install command, install arguments, and the start of the page\<close>

datatype describe_prompt =
  DescribePrompt string string "MCPTool list"
  \<comment> \<open>what \<^verbatim>\<open>generate_plugin_description\<close> puts in its prompt: name, description, tools\<close>

datatype event =
    HttpGet string
  | FileWrite path
  | LLMEnhance enhance_prompt
  | LLMDescribe describe_prompt

record world =
  files :: "path \<Rightarrow> file_content option"
  trace :: "event list"

datatype exn =
    ConversionError string
  | ValueError string
  | HTTPError string
  | RegexError string
  | JSONDecodeError
  | FileNotFoundError

definition write_file :: "path \<Rightarrow> file_content \<Rightarrow> world \<Rightarrow> world" where
  "write_file p c w = w\<lparr>files := (files w)(p \<mapsto> c), trace := trace w @ [FileWrite p]\<rparr>"

section \<open>core/plugin\_generator.py: writing the plugin\<close>

record PluginGenerator =
  output_dir :: path

definition generate :: "PluginGenerator \<Rightarrow> MCPInfo \<Rightarrow> world \<Rightarrow> path \<times> world" where
  "generate g mcp_info w =
     (let pname = sanitize_name (name mcp_info);
          plugin_dir = output_dir g @ [pname];
          claude_plugin_dir = plugin_dir @ [''.claude-plugin''];
          plugin_config = create_plugin_config mcp_info pname;
          plugin_json_path = claude_plugin_dir @ [''plugin.json'']
      in (plugin_dir,
          write_file plugin_json_path (PluginFile (PluginConfig_model_dump plugin_config)) w))"

section \<open>core/marketplace.py\<close>

record Marketplace =
  marketplace_path :: path

definition config_dir :: "Marketplace \<Rightarrow> path" where
  "config_dir m = marketplace_path m @ [''.claude-plugin'']"

definition config_path :: "Marketplace \<Rightarrow> path" where
  "config_path m = config_dir m @ [''marketplace.json'']"

definition save_config :: "Marketplace \<Rightarrow> MarketplaceConfig \<Rightarrow> world \<Rightarrow> world" where
  \<comment> \<open>\<^verbatim>\<open>Marketplace._save_config\<close>\<close>
  "save_config m config w = write_file (config_path m) (CatalogFile config) w"

definition initialize :: "Marketplace \<Rightarrow> string \<Rightarrow> string \<Rightarrow> string \<Rightarrow> world \<Rightarrow> world" where
  "initialize m nm own descr w =
     (if files w (config_path m) = None
      then save_config m
             \<lparr>marketplace_name = nm, marketplace_description = descr,
              owner = \<lparr>owner_name = own, owner_email = None\<rparr>, plugins = []\<rparr> w
      else w)"

definition initialize_default :: "Marketplace \<Rightarrow> world \<Rightarrow> world" where
  \<comment> \<open>\<^verbatim>\<open>initialize()\<close> with the default arguments\<close>
  "initialize_default m w =
     initialize m ''mcp2plugin-marketplace'' ''mcp2plugin''
       ''Converted MCP servers as Claude Code plugins'' w"

definition load_config :: "Marketplace \<Rightarrow> world \<Rightarrow> (exn + MarketplaceConfig) \<times> world" where
  \<comment> \<open>\<^verbatim>\<open>Marketplace._load_config\<close>\<close>
  "load_config m w =
     (let w1 = (if files w (config_path m) = None then initialize_default m w else w)
      in case files w1 (config_path m) of
           None \<Rightarrow> (Inl FileNotFoundError, w1)
         | Some (CatalogFile config) \<Rightarrow> (Inr config, w1)
         | Some _ \<Rightarrow> (Inl JSONDecodeError, w1))"

fun find_index :: "('a \<Rightarrow> bool) \<Rightarrow> 'a list \<Rightarrow> nat option" where
  \<comment> \<open>the \<^verbatim>\<open>for idx, p in enumerate(...)\<close> loop with its \<^verbatim>\<open>break\<close>: the first index that satisfies \<open>P\<close>\<close>
  "find_index P [] = None"
| "find_index P (x # xs) =
     (if P x then Some 0 else (case find_index P xs of None \<Rightarrow> None | Some i \<Rightarrow> Some (Suc i)))"

definition plugin_entry :: "Marketplace \<Rightarrow> path \<Rightarrow> MCPInfo \<Rightarrow> MarketplacePlugin" where
  \<comment> \<open>the entry \<^verbatim>\<open>add_plugin\<close> builds\<close>
  "plugin_entry m plugin_path mcp_info =
     \<lparr>entry_name = path_name plugin_path,
      source = (case relative_to plugin_path (marketplace_path m) of
                  Some relative_path \<Rightarrow> ''./'' @ path_str relative_path
                | None \<Rightarrow> path_str plugin_path),
      entry_description = py_or (description mcp_info) (''MCP server: '' @ name mcp_info),
      category = Some ''mcp'',
      entry_homepage = homepage mcp_info\<rparr>"

definition upsert :: "MarketplacePlugin \<Rightarrow> MarketplacePlugin list \<Rightarrow> MarketplacePlugin list" where
  \<comment> \<open>the second half of \<^verbatim>\<open>add_plugin\<close>: replace at the first index with the name, else append\<close>
  "upsert e ps =
     (case find_index (\<lambda>p. entry_name p = entry_name e) ps of
        Some existing_idx \<Rightarrow> ps[existing_idx := e]
      | None \<Rightarrow> ps @ [e])"

definition add_plugin :: "Marketplace \<Rightarrow> path \<Rightarrow> MCPInfo \<Rightarrow> world \<Rightarrow> (exn + unit) \<times> world" where
  "add_plugin m plugin_path mcp_info w =
     (case load_config m w of
        (Inl e, w1) \<Rightarrow> (Inl e, w1)
      | (Inr config, w1) \<Rightarrow>
          (Inr (),
           save_config m
             (config\<lparr>plugins := upsert (plugin_entry m plugin_path mcp_info) (plugins config)\<rparr>) w1))"

definition remove_plugin :: "Marketplace \<Rightarrow> string \<Rightarrow> world \<Rightarrow> (exn + bool) \<times> world" where
  "remove_plugin m nm w =
     (case load_config m w of
        (Inl e, w1) \<Rightarrow> (Inl e, w1)
      | (Inr config, w1) \<Rightarrow>
          (let original_count = length (plugins config);
               config' = config\<lparr>plugins := filter (\<lambda>p. entry_name p \<noteq> nm) (plugins config)\<rparr>
           in if length (plugins config') < original_count
              then (Inr True, save_config m config' w1)
              else (Inr False, w1)))"

definition stored_plugins :: "Marketplace \<Rightarrow> world \<Rightarrow> MarketplacePlugin list" where
  \<comment> \<open>the entries of the catalog file as it stands, read without any effect\<close>
  "stored_plugins m w =
     (case files w (config_path m) of Some (CatalogFile config) \<Rightarrow> plugins config | _ \<Rightarrow> [])"

fun no_double :: "string \<Rightarrow> bool" where
  \<comment> \<open>no two hyphens next to each other\<close>
  "no_double (a # b # cs) = (\<not> (a = CHR ''-'' \<and> b = CHR ''-'') \<and> no_double (b # cs))"
| "no_double _ = True"

definition emitted_server_config :: "MCPInfo \<Rightarrow> string \<Rightarrow> (string \<times> json) list" where
  \<comment> \<open>the server configuration in the serialized descriptor, under the server's key\<close>
  "emitted_server_config i pname =
     (case map_of (PluginConfig_model_dump (create_plugin_config i pname)) ''mcpServers'' of
        Some (JDict servers) \<Rightarrow>
          (case map_of servers (get_server_name i) of Some (JDict c) \<Rightarrow> c | _ \<Rightarrow> [])
      | _ \<Rightarrow> [])"

section \<open>Regular expressions over page text\<close>

text \<open>
  Each pattern below is a function from the text at a position to the captured group
  and the text after the match, or \<open>None\<close>. In every pattern a repetition is followed
  by a character outside its class, so the greedy match is the only candidate at a
  position. \<^verbatim>\<open>re.findall\<close> collects the groups of the matches from left to right, each
  search starting where the last match ended; every pattern here consumes at least
  one character.
\<close>

function re_findall :: "(string \<Rightarrow> ('a \<times> string) option) \<Rightarrow> string \<Rightarrow> 'a list" where
  "re_findall m [] = []"
| "re_findall m (c # cs) =
     (case m (c # cs) of
        Some (g, rest) \<Rightarrow> g # re_findall m (if length rest \<le> length cs then rest else cs)
      | None \<Rightarrow> re_findall m cs)"
  by pat_completeness auto
termination
  by (relation "measure (\<lambda>(m, s). length s)") auto

definition class_plus :: "(char \<Rightarrow> bool) \<Rightarrow> string \<Rightarrow> (string \<times> string) option" where
  \<comment> \<open>\<^verbatim>\<open>([class]+)\<close>: the longest run of the class, which must not be empty\<close>
  "class_plus P s = (if takeWhile P s = [] then None else Some (takeWhile P s, dropWhile P s))"

definition is_upper :: "char \<Rightarrow> bool" where
  "is_upper c = (65 \<le> (of_char c :: nat) \<and> (of_char c :: nat) \<le> 90)"

definition env_char :: "char \<Rightarrow> bool" where
  \<comment> \<open>\<^verbatim>\<open>[A-Z0-9_]\<close>\<close>
  "env_char c = (is_upper c \<or> is_digit c \<or> c = CHR ''_'')"

definition var_name :: "string \<Rightarrow> (string \<times> string) option" where
  \<comment> \<open>\<^verbatim>\<open>([A-Z][A-Z0-9_]+)\<close>\<close>
  "var_name s =
     (case s of [] \<Rightarrow> None
      | c # cs \<Rightarrow>
          if is_upper c \<and> takeWhile env_char cs \<noteq> []
          then Some (c # takeWhile env_char cs, dropWhile env_char cs) else None)"

definition then_lit :: "string \<Rightarrow> ('a \<times> string) option \<Rightarrow> ('a \<times> string) option" where
  \<comment> \<open>a literal after a group\<close>
  "then_lit p r =
     (case r of None \<Rightarrow> None
      | Some (g, s) \<Rightarrow> (case lit p s of None \<Rightarrow> None | Some s' \<Rightarrow> Some (g, s')))"

definition pat_dollar_brace :: "string \<Rightarrow> (string \<times> string) option" where
  \<comment> \<open>\<^verbatim>\<open>\$\{([A-Z][A-Z0-9_]+)\}\<close>\<close>
  "pat_dollar_brace s =
     (case lit ''${'' s of None \<Rightarrow> None | Some r \<Rightarrow> then_lit ''}'' (var_name r))"

definition pat_dollar :: "string \<Rightarrow> (string \<times> string) option" where
  \<comment> \<open>\<^verbatim>\<open>\$([A-Z][A-Z0-9_]+)\<close>\<close>
  "pat_dollar s = (case lit ''$'' s of None \<Rightarrow> None | Some r \<Rightarrow> var_name r)"

definition pat_assign :: "string \<Rightarrow> (string \<times> string) option" where
  \<comment> \<open>\<^verbatim>\<open>([A-Z][A-Z0-9_]+)=\<close>\<close>
  "pat_assign s = then_lit ''='' (var_name s)"

definition pat_env :: "string \<Rightarrow> (string \<times> string) option" where
  \<comment> \<open>\<^verbatim>\<open>env[:\s]+([A-Z][A-Z0-9_]+)\<close>\<close>
  "pat_env s =
     (case lit ''env'' s of None \<Rightarrow> None
      | Some r \<Rightarrow>
          (case class_plus (\<lambda>c. c = CHR '':'' \<or> is_space c) r of None \<Rightarrow> None
           | Some (_, r') \<Rightarrow> var_name r'))"

definition pat_quoted :: "string \<Rightarrow> (string \<times> string) option" where
  \<comment> \<open>\<^verbatim>\<open>"([A-Z][A-Z0-9_]+)"\<close>\<close>
  "pat_quoted s =
     (case lit [CHR 0x22] s of None \<Rightarrow> None | Some r \<Rightarrow> then_lit [CHR 0x22] (var_name r))"

definition pat_typed :: "string \<Rightarrow> (string \<times> string) option" where
  \<comment> \<open>\<^verbatim>\<open>([A-Z][A-Z0-9_]+):\s*(?:string|required)\<close>\<close>
  "pat_typed s =
     (case then_lit '':'' (var_name s) of None \<Rightarrow> None
      | Some (g, r) \<Rightarrow>
          (case lit ''string'' (dropWhile is_space r) of
             Some r' \<Rightarrow> Some (g, r')
           | None \<Rightarrow>
               (case lit ''required'' (dropWhile is_space r) of
                  Some r' \<Rightarrow> Some (g, r') | None \<Rightarrow> None)))"

definition pat_quoted_object :: "string \<Rightarrow> (string \<times> string) option" where
  \<comment> \<open>\<^verbatim>\<open>"([A-Z][A-Z0-9_]+)":\s*\{\<close>\<close>
  "pat_quoted_object s =
     (case pat_quoted s of None \<Rightarrow> None
      | Some (g, r) \<Rightarrow>
          (case lit '':'' r of None \<Rightarrow> None
           | Some r' \<Rightarrow>
               (case lit ''{'' (dropWhile is_space r') of
                  None \<Rightarrow> None | Some r'' \<Rightarrow> Some (g, r''))))"

definition pkg_char :: "char \<Rightarrow> bool" where
  \<comment> \<open>\<^verbatim>\<open>[^\s<"']\<close>\<close>
  "pkg_char c = (\<not> is_space c \<and> c \<noteq> CHR ''<'' \<and> c \<noteq> CHR 0x22 \<and> c \<noteq> CHR 0x27)"

definition url_char :: "char \<Rightarrow> bool" where
  \<comment> \<open>\<^verbatim>\<open>[^\s"'<>]\<close>\<close>
  "url_char c =
     (\<not> is_space c \<and> c \<noteq> CHR 0x22 \<and> c \<noteq> CHR 0x27 \<and> c \<noteq> CHR ''<'' \<and> c \<noteq> CHR ''>'')"

definition group_of :: "('a \<times> string) option \<Rightarrow> 'a option" where
  "group_of r = (case r of None \<Rightarrow> None | Some (g, _) \<Rightarrow> Some g)"

definition words :: "string list \<Rightarrow> (char \<Rightarrow> bool) \<Rightarrow> string \<Rightarrow> string option" where
  \<comment> \<open>literals separated by \<^verbatim>\<open>\s+\<close>, then a group \<^verbatim>\<open>([class]+)\<close> after a last \<^verbatim>\<open>\s+\<close>\<close>
  "words ws P s =
     (case fold (\<lambda>w r. case r of None \<Rightarrow> None
                        | Some t \<Rightarrow> (case lit w t of None \<Rightarrow> None
                                      | Some t' \<Rightarrow> (case class_plus is_space t' of None \<Rightarrow> None
                                                     | Some (_, t'') \<Rightarrow> Some t'')))
                ws (Some s) of
        None \<Rightarrow> None
      | Some t \<Rightarrow> group_of (class_plus P t))"

definition pat_npx_y :: "string \<Rightarrow> string option" where
  \<comment> \<open>\<^verbatim>\<open>npx\s+-y\s+([^\s<"']+)\<close>\<close>
  "pat_npx_y = words [''npx'', ''-y''] pkg_char"

definition pat_uvx :: "string \<Rightarrow> string option" where
  \<comment> \<open>\<^verbatim>\<open>uvx\s+([^\s<"']+)\<close>\<close>
  "pat_uvx = words [''uvx''] pkg_char"

definition pat_bunx :: "string \<Rightarrow> string option" where
  \<comment> \<open>\<^verbatim>\<open>bunx\s+([^\s<"']+)\<close>\<close>
  "pat_bunx = words [''bunx''] pkg_char"

definition pat_npm_exec :: "string \<Rightarrow> string option" where
  \<comment> \<open>\<^verbatim>\<open>npm\s+exec\s+([^\s<"']+)\<close>\<close>
  "pat_npm_exec = words [''npm'', ''exec''] pkg_char"

definition pat_smithery_cli :: "string \<Rightarrow> string option" where
  \<comment> \<open>\<^verbatim>\<open>npx\s+@smithery/cli\s+install\s+([^\s]+)\<close>\<close>
  "pat_smithery_cli = words [''npx'', ''@smithery/cli'', ''install''] (\<lambda>c. \<not> is_space c)"

definition pat_npm_install :: "string \<Rightarrow> string option" where
  \<comment> \<open>\<^verbatim>\<open>npm\s+install\s+([^\s]+)\<close>\<close>
  "pat_npm_install = words [''npm'', ''install''] (\<lambda>c. \<not> is_space c)"

definition pat_at_word :: "string \<Rightarrow> string option" where
  \<comment> \<open>\<^verbatim>\<open>@(\w+)\<close>\<close>
  "pat_at_word s = (case lit ''@'' s of None \<Rightarrow> None | Some r \<Rightarrow> group_of (class_plus is_word r))"

definition pat_opt_at_word :: "string \<Rightarrow> string option" where
  \<comment> \<open>\<^verbatim>\<open>@?(\w+)\<close>\<close>
  "pat_opt_at_word s = group_of (class_plus is_word (opt_lit ''@'' s))"

definition pat_http_url :: "string \<Rightarrow> string option" where
  \<comment> \<open>\<^verbatim>\<open>(https?://[^\s"'<>]+)\<close>: the group is the whole match\<close>
  "pat_http_url s =
     (case lit ''http'' s of None \<Rightarrow> None
      | Some r0 \<Rightarrow>
          (case lit ''://'' (opt_lit ''s'' r0) of None \<Rightarrow> None
           | Some r1 \<Rightarrow>
               (case class_plus url_char r1 of None \<Rightarrow> None
                | Some (g, _) \<Rightarrow>
                    Some ((if lit ''s'' r0 \<noteq> None then ''https://'' else ''http://'') @ g))))"

definition pat_call :: "string \<Rightarrow> (string \<times> string) option" where
  \<comment> \<open>\<^verbatim>\<open>(\w+)\s*\(\<close>\<close>
  "pat_call s =
     (case class_plus is_word s of None \<Rightarrow> None
      | Some (g, r) \<Rightarrow>
          (case lit ''('' (dropWhile is_space r) of None \<Rightarrow> None | Some r' \<Rightarrow> Some (g, r')))"

definition split_first :: "(char \<Rightarrow> bool) \<Rightarrow> string \<Rightarrow> (string \<times> string) option" where
  \<comment> \<open>\<^verbatim>\<open>re.split("[class]", text, maxsplit=1)\<close>: the two parts, or \<open>None\<close> when the
      text has no separator and the result has one part\<close>
  "split_first P s =
     (case dropWhile (\<lambda>c. \<not> P c) s of
        [] \<Rightarrow> None
      | _ # after \<Rightarrow> Some (takeWhile (\<lambda>c. \<not> P c) s, after))"

definition startswith :: "string \<Rightarrow> string \<Rightarrow> bool" where
  "startswith s p = (lit p s \<noteq> None)"

section \<open>The parsed page and the libraries outside the repository\<close>

text \<open>
  A parsed page is given by what the extractors ask of \<^verbatim>\<open>BeautifulSoup\<close>: one field per
  query. Texts of elements are as \<^verbatim>\<open>get_text(strip=True)\<close> returns them.
\<close>

record soup =
  get_text :: string
    \<comment> \<open>\<^verbatim>\<open>soup.get_text()\<close>\<close>
  h1 :: "string option"
    \<comment> \<open>text of the first \<^verbatim>\<open>h1\<close>\<close>
  meta_description :: "string option"
    \<comment> \<open>the \<^verbatim>\<open>content\<close> of \<^verbatim>\<open><meta name="description">\<close>; \<open>None\<close> without the tag or the attribute\<close>
  p_description :: "string option"
    \<comment> \<open>text of the first \<^verbatim>\<open>p\<close> whose class matches \<^verbatim>\<open>description|summary\<close>\<close>
  p_first :: "string option"
    \<comment> \<open>text of the first \<^verbatim>\<open>p\<close>\<close>
  string_at :: "string option"
    \<comment> \<open>the first string of the page that matches \<^verbatim>\<open>@\w+\<close>\<close>
  string_by :: "string option"
    \<comment> \<open>the first string of the page that matches \<^verbatim>\<open>by\s+@?\w+|author\<close>\<close>
  tool_items :: "string list list"
    \<comment> \<open>per element with class \<^verbatim>\<open>tool|feature|capability\<close>: the texts of its \<^verbatim>\<open>li\<close>, \<^verbatim>\<open>div\<close>, \<^verbatim>\<open>p\<close>\<close>
  api_items :: "string list list"
    \<comment> \<open>per element with class \<^verbatim>\<open>tool|function|method|endpoint|api\<close>: the texts of its \<^verbatim>\<open>li\<close>, \<^verbatim>\<open>tr\<close>, \<^verbatim>\<open>div\<close>\<close>
  strong_elements :: "(string \<times> string option) list"
    \<comment> \<open>each \<^verbatim>\<open>strong\<close> or \<^verbatim>\<open>b\<close>: its text and its next sibling as a string\<close>
  code_blocks :: "string list"
    \<comment> \<open>texts of the \<^verbatim>\<open>code\<close> elements\<close>
  http_strings :: "string list"
    \<comment> \<open>the strings of the page that match \<^verbatim>\<open>https?://.*mcp|endpoint|api\<close>\<close>
  config_sections :: "string list"
    \<comment> \<open>\<^verbatim>\<open>get_text()\<close> of each element with class \<^verbatim>\<open>config|env|setting\<close>\<close>
  github_href :: "string option"
    \<comment> \<open>\<^verbatim>\<open>href\<close> of the first anchor that points at \<^verbatim>\<open>github.com\<close>\<close>

datatype http_response = HttpFailure string | HttpOk string

datatype re_result = ReError string | NoMatch | Match string

datatype tool_reply = ToolOk string string | ToolBad

record enhancements =
  e_description :: "string option"
  e_tools :: "tool_reply list option"
  e_install_command :: "string option"
  e_install_args :: "string list option"

datatype llm_reply = Failed | Reply enhancements

text \<open>
  What lies outside the repository is a parameter of the model: the web, the HTML
  parser, the regular expression engine on the three patterns that the FastMCP
  extractor builds from the URL segment (it may reject the pattern), the iteration
  order of a Python set (elements in increasing rank, ties in insertion order),
  and the language model. A reply of the language model is modelled after the JSON
  decoding: \<open>Failed\<close> stands for a failed request, text that is not JSON and JSON that
  is not an object; a field holds the value under its key when it has the requested
  JSON type; \<open>ToolBad\<close> is an entry of \<^verbatim>\<open>tools\<close> that the \<^verbatim>\<open>MCPTool\<close> constructor rejects.
\<close>

record externals =
  http_get :: "string \<Rightarrow> http_response"
  BeautifulSoup :: "string \<Rightarrow> soup"
  re_search_ignorecase :: "string \<Rightarrow> string \<Rightarrow> re_result"
  set_rank :: "string \<Rightarrow> nat"
  llm_enhance :: "enhance_prompt \<Rightarrow> llm_reply"
  llm_describe :: "describe_prompt \<Rightarrow> string option"

definition list_of_set :: "externals \<Rightarrow> string list \<Rightarrow> string list" where
  \<comment> \<open>\<^verbatim>\<open>list(set(xs))\<close>\<close>
  "list_of_set x xs = sort_key (set_rank x) (remdups xs)"

definition client_get :: "externals \<Rightarrow> string \<Rightarrow> world \<Rightarrow> http_response \<times> world" where
  \<comment> \<open>\<^verbatim>\<open>client.get(url)\<close> with \<^verbatim>\<open>raise_for_status()\<close>\<close>
  "client_get x u w = (http_get x u, w\<lparr>trace := trace w @ [HttpGet u]\<rparr>)"

section \<open>sources/fastmcp.py\<close>

definition make_tool :: "(char \<Rightarrow> bool) \<Rightarrow> string \<Rightarrow> MCPTool list" where
  \<comment> \<open>the body of the loop over the items of a tool section\<close>
  "make_tool sep text =
     (if text \<noteq> [] \<and> length text > 5 then
        (case split_first sep text of
           Some (a, b) \<Rightarrow>
             [\<lparr>tool_name = strip_chars is_space a, tool_description = strip_chars is_space b\<rparr>]
         | None \<Rightarrow> [\<lparr>tool_name = take 50 text, tool_description = text\<rparr>])
      else [])"

definition fastmcp_separator :: "char \<Rightarrow> bool" where
  \<comment> \<open>the class in \<^verbatim>\<open>re.split\<close> of this file, on the modelled code points\<close>
  "fastmcp_separator c = (c = CHR ''-'' \<or> c = CHR 0xE2 \<or> c = CHR '':'')"

definition FastMCPSource_extract_tools :: "soup \<Rightarrow> MCPTool list" where
  "FastMCPSource_extract_tools sp =
     (let found = concat (map (\<lambda>items. concat (map (make_tool fastmcp_separator) items)) (tool_items sp));
          found =
            (if found = [] then
               concat (map (\<lambda>(nm, next_text).
                    if (nm \<noteq> [] \<and> CHR ''_'' \<in> set nm) \<or> startswith nm ''get'' \<or> startswith nm ''create''
                    then [\<lparr>tool_name = nm,
                           tool_description =
                             take 200 (case next_text of None \<Rightarrow> []
                                       | Some t \<Rightarrow> if t \<noteq> [] then strip_chars is_space t else [])\<rparr>]
                    else [])
                  (strong_elements sp))
             else found)
      in take 20 found)"

fun first_match :: "((string \<Rightarrow> string option) \<times> 'a) list \<Rightarrow> string \<Rightarrow> (string \<times> 'a) option" where
  \<comment> \<open>the loop over the patterns: the group and the tag of the first pattern found in the text\<close>
  "first_match [] text = None"
| "first_match ((pat, tag) # ps) text =
     (case re_search pat text of Some g \<Rightarrow> Some (g, tag) | None \<Rightarrow> first_match ps text)"

fun first_package :: "externals \<Rightarrow> string list \<Rightarrow> string \<Rightarrow> exn + string option" where
  \<comment> \<open>the loop over \<^verbatim>\<open>package_patterns\<close>, searched with \<^verbatim>\<open>re.I\<close>: group 0 of the first match\<close>
  "first_package x [] text = Inr None"
| "first_package x (pat # ps) text =
     (case re_search_ignorecase x pat text of
        ReError e \<Rightarrow> Inl (RegexError e)
      | Match g \<Rightarrow> Inr (Some g)
      | NoMatch \<Rightarrow> first_package x ps text)"

definition FastMCPSource_extract_install_command ::
  "externals \<Rightarrow> soup \<Rightarrow> string \<Rightarrow> exn + string \<times> string list" where
  "FastMCPSource_extract_install_command x sp mcp_name =
     (let page_text = get_text sp in
      case first_match [(pat_npx_y, ''npx''), (pat_uvx, ''uvx''), (pat_bunx, ''bunx''),
                        (pat_npm_exec, ''npm'')] page_text of
        Some (package, cmd) \<Rightarrow>
          Inr (if cmd = ''npx'' then (''npx'', [''-y'', package])
               else if cmd = ''uvx'' then (''uvx'', [package])
               else if cmd = ''bunx'' then (''bunx'', [package])
               else (''npm'', [''exec'', package]))
      | None \<Rightarrow>
          (case first_package x
                  [''@[^/'' @ [CHR 0x5C] @ ''s]+/'' @ mcp_name,
                   ''mcp-server-'' @ mcp_name,
                   mcp_name @ ''-mcp''] page_text of
             Inl e \<Rightarrow> Inl e
           | Inr (Some g) \<Rightarrow> Inr (''npx'', [''-y'', g])
           | Inr None \<Rightarrow> Inr (''npx'', [''-y'', ''mcp-server-'' @ lower mcp_name])))"

fun find_http_url :: "string list \<Rightarrow> string option" where
  \<comment> \<open>the loop over \<^verbatim>\<open>http_patterns\<close> with its \<^verbatim>\<open>break\<close>\<close>
  "find_http_url [] = None"
| "find_http_url (p # ps) =
     (case re_search pat_http_url p of
        Some u \<Rightarrow> if contains ''mcp'' (lower u) then Some u else find_http_url ps
      | None \<Rightarrow> find_http_url ps)"

definition stoplisted :: "string list \<Rightarrow> string \<Rightarrow> bool" where
  \<comment> \<open>\<^verbatim>\<open>any(x in match.lower() for x in stoplist)\<close>\<close>
  "stoplisted stoplist v = list_ex (\<lambda>x. contains x (lower v)) stoplist"

definition fastmcp_stoplist :: "string list" where
  "fastmcp_stoplist = [''url'', ''uri'', ''http'', ''json'', ''xml'']"

definition fastmcp_collect :: "string list \<Rightarrow> string list \<Rightarrow> string list" where
  \<comment> \<open>the inner loop: append the matches that are new, longer than 3 and not stoplisted\<close>
  "fastmcp_collect vars matches =
     fold (\<lambda>mt acc.
             if mt \<notin> set acc \<and> length mt > 3 \<and> \<not> stoplisted fastmcp_stoplist mt
             then acc @ [mt] else acc)
          matches vars"

definition FastMCPSource_extract_env_vars :: "externals \<Rightarrow> soup \<Rightarrow> string list" where
  "FastMCPSource_extract_env_vars x sp =
     (let page_text = get_text sp;
          vars =
            fold (\<lambda>pat acc. fastmcp_collect acc (re_findall pat page_text))
                 [pat_dollar_brace, pat_dollar, pat_assign, pat_env] []
      in take 10 (list_of_set x vars))"

definition truthy :: "'a list option \<Rightarrow> 'a list option" where
  \<comment> \<open>the value when it is neither \<^verbatim>\<open>None\<close> nor empty, as an \<^verbatim>\<open>if v:\<close> test lets it through\<close>
  "truthy v = (case v of None \<Rightarrow> None | Some s \<Rightarrow> if s = [] then None else Some s)"

definition FastMCPSource_fetch :: "externals \<Rightarrow> string \<Rightarrow> world \<Rightarrow> (exn + MCPInfo) \<times> world" where
  "FastMCPSource_fetch x u w =
     (case client_get x u w of
        (HttpFailure e, w1) \<Rightarrow> (Inl (HTTPError e), w1)
      | (HttpOk html, w1) \<Rightarrow>
          (let sp = BeautifulSoup x html in
           case FASTMCP_PATTERN_match u of
             None \<Rightarrow> (Inl (ValueError (''Invalid fastmcp.me URL: '' @ u)), w1)
           | Some (_, mcp_name) \<Rightarrow>
               (let display_name = (case h1 sp of Some t \<Rightarrow> t | None \<Rightarrow> mcp_name);
                    descr =
                      (case truthy (meta_description sp) of
                         Some content \<Rightarrow> content
                       | None \<Rightarrow> (case p_description sp of Some t \<Rightarrow> t | None \<Rightarrow> []));
                    auth =
                      (case truthy (string_at sp) of
                         Some author_elem \<Rightarrow>
                           (case re_search pat_at_word author_elem of Some g \<Rightarrow> g | None \<Rightarrow> [])
                       | None \<Rightarrow> []);
                    tls = FastMCPSource_extract_tools sp
                in case FastMCPSource_extract_install_command x sp mcp_name of
                     Inl e \<Rightarrow> (Inl e, w1)
                   | Inr (cmd, cmd_args) \<Rightarrow>
                       (let found = find_http_url (http_strings sp)
                        in (Inr \<lparr>name = py_or display_name mcp_name,
                                 description = descr,
                                 author = auth,
                                 tools = tls,
                                 install_command = cmd,
                                 install_args = cmd_args,
                                 connection_type = (if found \<noteq> None then ''http'' else ''stdio''),
                                 http_url = found,
                                 env_vars = FastMCPSource_extract_env_vars x sp,
                                 homepage = github_href sp,
                                 source_url = u\<rparr>, w1)))))"

section \<open>sources/smithery.py\<close>

definition smithery_separator :: "char \<Rightarrow> bool" where
  \<comment> \<open>the class in \<^verbatim>\<open>re.split\<close> of this file, on the modelled code points\<close>
  "smithery_separator c = (c = CHR ''-'' \<or> c = CHR '':'')"

definition add_calls :: "MCPTool list \<Rightarrow> string \<Rightarrow> MCPTool list" where
  \<comment> \<open>the loop over the call-like names of one \<^verbatim>\<open>code\<close> element\<close>
  "add_calls found text =
     fold (\<lambda>func_name acc.
             if func_name \<notin> set [''if'', ''for'', ''while'', ''function'', ''def'']
                \<and> \<not> list_ex (\<lambda>t. tool_name t = func_name) acc
             then acc @ [\<lparr>tool_name = func_name, tool_description = []\<rparr>] else acc)
          (re_findall pat_call text) found"

definition SmitherySource_extract_tools :: "soup \<Rightarrow> MCPTool list" where
  "SmitherySource_extract_tools sp =
     (let found = concat (map (\<lambda>items. concat (map (make_tool smithery_separator) items)) (api_items sp));
          found = fold (\<lambda>text acc. add_calls acc text) (code_blocks sp) found
      in take 20 found)"

definition SmitherySource_determine_connection ::
  "soup \<Rightarrow> string \<Rightarrow> string \<times> string \<times> string list \<times> string option" where
  "SmitherySource_determine_connection sp server_name =
     (let page_text = get_text sp in
      if list_ex (\<lambda>word. contains word (lower page_text))
           [''hosted'', ''remote'', ''cloud'', ''server.smithery.ai'']
      then (''http'', [], [], Some (''https://server.smithery.ai/'' @ server_name))
      else
        (case first_match [(pat_smithery_cli, (''npx'', True)), (pat_npx_y, (''npx'', False)),
                           (pat_npm_install, (''npm'', False))] page_text of
           Some (package, (cmd, cli)) \<Rightarrow>
             if cmd = ''npx'' \<and> cli then (''stdio'', ''npx'', [''-y'', ''@smithery/cli'', ''run'', package], None)
             else (''stdio'', ''npx'', [''-y'', package], None)
         | None \<Rightarrow> (''stdio'', ''npx'', [''-y'', ''@smithery/cli'', ''run'', server_name], None)))"

definition smithery_stoplist :: "string list" where
  "smithery_stoplist = [''type'', ''string'', ''number'', ''boolean'']"

definition SmitherySource_extract_env_vars :: "externals \<Rightarrow> soup \<Rightarrow> string list" where
  "SmitherySource_extract_env_vars x sp =
     (let page_text = get_text sp;
          vars = concat (map (re_findall pat_quoted) (config_sections sp));
          vars = vars @ concat (map (\<lambda>pat. re_findall pat page_text)
                                    [pat_dollar_brace, pat_typed, pat_quoted_object]);
          filtered = filter (\<lambda>var. length var > 3 \<and> \<not> stoplisted smithery_stoplist var)
                            (list_of_set x vars)
      in take 10 filtered)"

definition SmitherySource_fetch :: "externals \<Rightarrow> string \<Rightarrow> world \<Rightarrow> (exn + MCPInfo) \<times> world" where
  "SmitherySource_fetch x u0 w =
     (let u = normalize_url u0 in
      case client_get x u w of
        (HttpFailure e, w1) \<Rightarrow> (Inl (HTTPError e), w1)
      | (HttpOk html, w1) \<Rightarrow>
          (let sp = BeautifulSoup x html in
           case SMITHERY_PATTERN_match u of
             None \<Rightarrow> (Inl (ValueError (''Invalid smithery.ai URL: '' @ u)), w1)
           | Some server_name \<Rightarrow>
               (let display_name = (case h1 sp of Some t \<Rightarrow> t | None \<Rightarrow> server_name);
                    descr =
                      (case truthy (meta_description sp) of
                         Some content \<Rightarrow> content
                       | None \<Rightarrow> (case p_first sp of Some t \<Rightarrow> take 500 t | None \<Rightarrow> []));
                    auth =
                      (case truthy (string_by sp) of
                         Some author_elem \<Rightarrow>
                           (case re_search pat_opt_at_word author_elem of Some g \<Rightarrow> g | None \<Rightarrow> [])
                       | None \<Rightarrow> []);
                    tls = SmitherySource_extract_tools sp
                in case SmitherySource_determine_connection sp server_name of
                     (ctype, cmd, cmd_args, hurl) \<Rightarrow>
                       (Inr \<lparr>name = py_or display_name server_name,
                             description = descr,
                             author = auth,
                             tools = tls,
                             install_command = cmd,
                             install_args = cmd_args,
                             connection_type = ctype,
                             http_url = hurl,
                             env_vars = SmitherySource_extract_env_vars x sp,
                             homepage = github_href sp,
                             source_url = u\<rparr>, w1))))"

section \<open>llm/gemini.py\<close>

fun make_tools :: "tool_reply list \<Rightarrow> MCPTool list option" where
  \<comment> \<open>the list comprehension over the \<^verbatim>\<open>tools\<close> of the reply; \<open>None\<close> when a constructor raises\<close>
  "make_tools [] = Some []"
| "make_tools (ToolBad # ts) = None"
| "make_tools (ToolOk n d # ts) =
     (case make_tools ts of None \<Rightarrow> None
      | Some rest \<Rightarrow> Some (\<lparr>tool_name = n, tool_description = d\<rparr> # rest))"

definition apply_enhancements :: "MCPInfo \<Rightarrow> enhancements \<Rightarrow> MCPInfo" where
  \<comment> \<open>the assignments inside the \<^verbatim>\<open>try\<close>, in order; an exception keeps what was assigned before it\<close>
  "apply_enhancements i e =
     (let i1 = (case truthy (e_description e) of
                  Some d \<Rightarrow> if description i = [] then i\<lparr>description := d\<rparr> else i
                | None \<Rightarrow> i)
      in case (if tools i1 = [] then truthy (e_tools e) else None) of
           Some ts \<Rightarrow>
             (case make_tools ts of
                None \<Rightarrow> i1
              | Some new_tools \<Rightarrow>
                  (let i2 = i1\<lparr>tools := new_tools\<rparr>;
                       i3 = (case truthy (e_install_command e) of
                               Some c \<Rightarrow> if install_command i2 = [] then i2\<lparr>install_command := c\<rparr> else i2
                             | None \<Rightarrow> i2)
                   in case truthy (e_install_args e) of
                        Some a \<Rightarrow> if install_args i3 = [] then i3\<lparr>install_args := a\<rparr> else i3
                      | None \<Rightarrow> i3))
         | None \<Rightarrow>
             (let i3 = (case truthy (e_install_command e) of
                          Some c \<Rightarrow> if install_command i1 = [] then i1\<lparr>install_command := c\<rparr> else i1
                        | None \<Rightarrow> i1)
              in case truthy (e_install_args e) of
                   Some a \<Rightarrow> if install_args i3 = [] then i3\<lparr>install_args := a\<rparr> else i3
                 | None \<Rightarrow> i3))"

definition enhance_mcp_info :: "externals \<Rightarrow> MCPInfo \<Rightarrow> string \<Rightarrow> world \<Rightarrow> MCPInfo \<times> world" where
  "enhance_mcp_info x mcp_info html_content w =
     (let needs_enhancement =
            (description mcp_info = [] \<or> tools mcp_info = [] \<or> install_command mcp_info = [])
      in if \<not> needs_enhancement then (mcp_info, w)
         else
           (let prompt = EnhancePrompt (name mcp_info)
                           (py_or (description mcp_info) ''MISSING'')
                           (map tool_name (tools mcp_info))
                           (py_or (install_command mcp_info) ''MISSING'')
                           (install_args mcp_info)
                           (take 10000 html_content);
                w1 = w\<lparr>trace := trace w @ [LLMEnhance prompt]\<rparr>
            in case llm_enhance x prompt of
                 Failed \<Rightarrow> (mcp_info, w1)
               | Reply e \<Rightarrow> (apply_enhancements mcp_info e, w1)))"

definition generate_plugin_description ::
  "externals \<Rightarrow> string \<Rightarrow> MCPTool list \<Rightarrow> string \<Rightarrow> world \<Rightarrow> string option \<times> world" where
  \<comment> \<open>\<open>None\<close> when the request raises\<close>
  "generate_plugin_description x mcp_name tls raw_description w =
     (let prompt = DescribePrompt mcp_name (py_or raw_description ''None provided'') (take 10 tls)
      in (case llm_describe x prompt of
            None \<Rightarrow> None
          | Some text \<Rightarrow> Some (strip_chars is_space text),
          w\<lparr>trace := trace w @ [LLMDescribe prompt]\<rparr>))"

section \<open>core/converter.py\<close>

datatype source_parser = FastMCPSource | SmitherySource

definition can_handle :: "source_parser \<Rightarrow> string \<Rightarrow> bool" where
  "can_handle s u =
     (case s of FastMCPSource \<Rightarrow> FastMCPSource_can_handle u
      | SmitherySource \<Rightarrow> SmitherySource_can_handle u)"

definition fetch :: "source_parser \<Rightarrow> externals \<Rightarrow> string \<Rightarrow> world \<Rightarrow> (exn + MCPInfo) \<times> world" where
  "fetch s x u w =
     (case s of FastMCPSource \<Rightarrow> FastMCPSource_fetch x u w
      | SmitherySource \<Rightarrow> SmitherySource_fetch x u w)"

record Converter =
  marketplace :: Marketplace
  generator :: PluginGenerator
  use_llm :: bool
  gemini_parser :: bool
    \<comment> \<open>whether a \<^verbatim>\<open>GeminiParser\<close> was created\<close>
  sources :: "source_parser list"

definition get_source :: "Converter \<Rightarrow> string \<Rightarrow> source_parser option" where
  \<comment> \<open>\<^verbatim>\<open>Converter._get_source\<close>\<close>
  "get_source cv u = List.find (\<lambda>s. can_handle s u) (sources cv)"

definition exn_text :: "exn \<Rightarrow> string" where
  \<comment> \<open>\<^verbatim>\<open>str(e)\<close>\<close>
  "exn_text e =
     (case e of ConversionError t \<Rightarrow> t | ValueError t \<Rightarrow> t | HTTPError t \<Rightarrow> t
      | RegexError t \<Rightarrow> t | JSONDecodeError \<Rightarrow> ''Expecting value''
      | FileNotFoundError \<Rightarrow> ''No such file or directory'')"

definition unknown_url_message :: "string \<Rightarrow> string" where
  "unknown_url_message u =
     ''Unknown URL format: '' @ u @ [CHR 0x0A] @
     ''Supported sources:'' @ [CHR 0x0A] @
     ''  - fastmcp.me: https://fastmcp.me/MCP/Details/{id}/{name}'' @ [CHR 0x0A] @
     ''  - smithery.ai: https://smithery.ai/server/{name}''"

definition llm_enhancement :: "externals \<Rightarrow> string \<Rightarrow> MCPInfo \<Rightarrow> world \<Rightarrow> MCPInfo \<times> world" where
  \<comment> \<open>the \<^verbatim>\<open>try\<close> block of \<^verbatim>\<open>convert\<close>; any exception keeps the record as it is at that point\<close>
  "llm_enhancement x u mcp_info w =
     (case client_get x u w of
        (HttpFailure e, w1) \<Rightarrow> (mcp_info, w1)
      | (HttpOk html_content, w1) \<Rightarrow>
          (case enhance_mcp_info x mcp_info html_content w1 of
             (enhanced, w2) \<Rightarrow>
               if description enhanced = [] \<or> length (description enhanced) < 20 then
                 (case generate_plugin_description x (name enhanced) (tools enhanced)
                         (description enhanced) w2 of
                    (None, w3) \<Rightarrow> (enhanced, w3)
                  | (Some d, w3) \<Rightarrow> (enhanced\<lparr>description := d\<rparr>, w3))
               else (enhanced, w2)))"

definition convert :: "Converter \<Rightarrow> externals \<Rightarrow> string \<Rightarrow> world \<Rightarrow> (exn + path) \<times> world" where
  "convert cv x u0 w =
     (let u = normalize_url u0;
          source_type = detect_source u
      in if source_type = UNKNOWN then (Inl (ConversionError (unknown_url_message u)), w)
         else
           (case get_source cv u of
              None \<Rightarrow> (Inl (ConversionError (''No parser available for URL: '' @ u)), w)
            | Some src \<Rightarrow>
                (case fetch src x u w of
                   (Inl (HTTPError e), w1) \<Rightarrow>
                     (Inl (ConversionError (''Failed to fetch URL: '' @ e)), w1)
                 | (Inl e, w1) \<Rightarrow>
                     (Inl (ConversionError (''Failed to parse MCP page: '' @ exn_text e)), w1)
                 | (Inr fetched, w1) \<Rightarrow>
                     (case (if gemini_parser cv \<and> use_llm cv then llm_enhancement x u fetched w1
                            else (fetched, w1)) of
                        (mcp_info, w2) \<Rightarrow>
                          (case generate (generator cv) mcp_info w2 of
                             (plugin_path, w3) \<Rightarrow>
                               (case add_plugin (marketplace cv) plugin_path mcp_info w3 of
                                  (Inl e, w4) \<Rightarrow> (Inl e, w4)
                                | (Inr _, w4) \<Rightarrow> (Inr plugin_path, w4)))))))"

definition get_info :: "Converter \<Rightarrow> externals \<Rightarrow> string \<Rightarrow> world \<Rightarrow> (exn + MCPInfo) \<times> world" where
  "get_info cv x u0 w =
     (let u = normalize_url u0
      in case get_source cv u of
           None \<Rightarrow> (Inl (ConversionError (''No parser available for URL: '' @ u)), w)
         | Some src \<Rightarrow> fetch src x u w)"

definition record_invariant :: "MCPInfo \<Rightarrow> bool" where
  \<comment> \<open>the invariant of the data model, on the fields of the source\<close>
  "record_invariant i =
     ((connection_type i = ''http'' \<longrightarrow> http_url i \<noteq> None) \<and>
      (connection_type i = ''stdio'' \<longrightarrow> install_command i \<noteq> []))"

definition fastmcp_captures :: "soup \<Rightarrow> string list" where
  \<comment> \<open>the groups the four patterns of the FastMCP extractor capture in the page text\<close>
  "fastmcp_captures sp =
     concat (map (\<lambda>pat. re_findall pat (get_text sp))
                 [pat_dollar_brace, pat_dollar, pat_assign, pat_env])"

definition smithery_captures :: "soup \<Rightarrow> string list" where
  \<comment> \<open>the groups the Smithery extractor captures in the configuration sections and the page text\<close>
  "smithery_captures sp =
     concat (map (re_findall pat_quoted) (config_sections sp)) @
     concat (map (\<lambda>pat. re_findall pat (get_text sp))
                 [pat_dollar_brace, pat_typed, pat_quoted_object])"

definition kept :: "string list \<Rightarrow> string \<Rightarrow> bool" where
  \<comment> \<open>longer than 3 characters and free of the tokens of the stoplist\<close>
  "kept stoplist v = (length v > 3 \<and> \<not> stoplisted stoplist v)"

section \<open>Concrete inputs\<close>

definition example_marketplace :: Marketplace where
  "example_marketplace = \<lparr>marketplace_path = [''/'', ''work'']\<rparr>"

definition example_info :: "string \<Rightarrow> MCPInfo" where
  "example_info d =
     \<lparr>name = ''Repomix'', description = d, author = [], tools = [],
      install_command = ''npx'', install_args = [''-y'', ''repomix-mcp''],
      connection_type = ''stdio'', http_url = None, env_vars = [], homepage = None,
      source_url = ''https://fastmcp.me/MCP/Details/217/repomix''\<rparr>"

definition example_entry :: "string \<Rightarrow> string \<Rightarrow> MarketplacePlugin" where
  "example_entry nm d =
     \<lparr>entry_name = nm, source = ''./plugins/'' @ nm, entry_description = d,
      category = Some ''mcp'', entry_homepage = None\<rparr>"

definition example_catalog :: "MarketplacePlugin list \<Rightarrow> MarketplaceConfig" where
  "example_catalog ps =
     \<lparr>marketplace_name = ''mcp2plugin-marketplace'',
      marketplace_description = ''Converted MCP servers as Claude Code plugins'',
      owner = \<lparr>owner_name = ''mcp2plugin'', owner_email = None\<rparr>, plugins = ps\<rparr>"

definition example_world :: "MarketplacePlugin list \<Rightarrow> world" where
  "example_world ps =
     \<lparr>files = [config_path example_marketplace \<mapsto> CatalogFile (example_catalog ps)], trace = []\<rparr>"

definition example_plugin_path :: path where
  "example_plugin_path = [''/'', ''work'', ''plugins'', ''repomix'']"

definition example_soup :: "string \<Rightarrow> soup" where
  \<comment> \<open>a page with a heading, a meta description and the given text\<close>
  "example_soup t =
     \<lparr>get_text = t, h1 = Some ''Repomix'',
      meta_description = Some ''Pack a repo into AI-friendly text'',
      p_description = None, p_first = None, string_at = None, string_by = None,
      tool_items = [], api_items = [], strong_elements = [], code_blocks = [],
      http_strings = [], config_sections = [], github_href = None\<rparr>"

definition example_externals :: "string \<Rightarrow> externals" where
  \<comment> \<open>every URL serves that page; no language model answers\<close>
  "example_externals t =
     \<lparr>http_get = (\<lambda>u. HttpOk t), BeautifulSoup = example_soup,
      re_search_ignorecase = (\<lambda>p s. NoMatch), set_rank = length,
      llm_enhance = (\<lambda>p. Failed), llm_describe = (\<lambda>p. None)\<rparr>"

definition empty_world :: world where
  "empty_world = \<lparr>files = Map.empty, trace = []\<rparr>"

definition example_converter :: Converter where
  "example_converter =
     \<lparr>marketplace = example_marketplace,
      generator = \<lparr>output_dir = [''/'', ''work'', ''plugins'']\<rparr>,
      use_llm = True, gemini_parser = True,
      sources = [FastMCPSource, SmitherySource]\<rparr>"

definition example_reply :: enhancements where
  "example_reply =
     \<lparr>e_description = Some ''A polished description'',
      e_tools = Some [ToolOk ''pack_codebase'' ''Pack a repository''],
      e_install_command = Some ''uvx'',
      e_install_args = Some [''other-package'']\<rparr>"

definition answering_externals :: externals where
  \<comment> \<open>as \<open>example_externals\<close>, with a language model that offers a value for every field\<close>
  "answering_externals = (example_externals ''npx -y repomix-mcp'')\<lparr>llm_enhance := (\<lambda>p. Reply example_reply)\<rparr>"

section \<open>Literals, search and containment\<close>

lemma lit_Some: "lit p s = Some r \<Longrightarrow> s = p @ r"
  by (induction p s rule: lit.induct) (auto split: if_splits)

lemma lit_append: "lit p (p @ r) = Some r"
  by (induction p) auto

lemma contains_iff: "contains sub s \<longleftrightarrow> (\<exists>a b. s = a @ sub @ b)"
proof (induction s)
  case Nil
  then show ?case by auto
next
  case (Cons c cs)
  show ?case
  proof
    assume "contains sub (c # cs)"
    then consider "lit sub (c # cs) \<noteq> None" | "contains sub cs" by auto
    then show "\<exists>a b. c # cs = a @ sub @ b"
    proof cases
      case 1
      then obtain r where "lit sub (c # cs) = Some r" by auto
      then have "c # cs = [] @ sub @ r" by (auto dest: lit_Some)
      then show ?thesis by blast
    next
      case 2
      with Cons obtain a b where "cs = a @ sub @ b" by auto
      then have "c # cs = (c # a) @ sub @ b" by simp
      then show ?thesis by blast
    qed
  next
    assume "\<exists>a b. c # cs = a @ sub @ b"
    then obtain a b where ab: "c # cs = a @ sub @ b" by auto
    show "contains sub (c # cs)"
    proof (cases a)
      case Nil
      with ab have "lit sub (c # cs) = Some b" by (simp add: lit_append)
      then show ?thesis by simp
    next
      case (Cons a1 as)
      with ab have "cs = as @ sub @ b" by simp
      with Cons.IH show ?thesis by auto
    qed
  qed
qed

section \<open>The URL normalizer\<close>

lemma server_smithery_match_no_slash:
  "CHR ''/'' \<notin> set s \<Longrightarrow> server_smithery_match s = None"
  by (auto simp: server_smithery_match_def split: option.splits dest!: lit_Some)

lemma re_search_no_slash:
  "CHR ''/'' \<notin> set s \<Longrightarrow> re_search server_smithery_match s = None"
  by (induction s) (auto simp: server_smithery_match_no_slash split: option.splits)

lemma takeWhile_name_char_no_slash: "CHR ''/'' \<notin> set (takeWhile name_char s)"
  by (induction s) (auto simp: name_char_def)

lemma server_smithery_match_Some:
  "server_smithery_match s = Some n \<Longrightarrow> CHR ''/'' \<notin> set n"
  by (auto simp: server_smithery_match_def takeWhile_name_char_no_slash
      split: option.splits if_splits)

lemma re_search_Some:
  "re_search server_smithery_match s = Some n \<Longrightarrow> CHR ''/'' \<notin> set n"
  by (induction s) (auto dest: server_smithery_match_Some split: option.splits)

lemma re_search_canonical:
  assumes "CHR ''/'' \<notin> set n"
  shows "re_search server_smithery_match (''https://smithery.ai/server/'' @ n) = None"
  using assms by (simp add: server_smithery_match_def re_search_no_slash)

text \<open>
  C6. \<^verbatim>\<open>normalize_url\<close> is idempotent: normalizing a normalized URL changes nothing,
  for every input string. A rewritten URL is \<^verbatim>\<open>https://smithery.ai/server/<name>\<close> with
  a name free of slashes, and the alias pattern matches nowhere in such a text.
\<close>

theorem normalize_url_idempotent: "normalize_url (normalize_url u) = normalize_url u"
proof (cases "contains ''server.smithery.ai'' u")
  case False
  then show ?thesis by (simp add: normalize_url_def)
next
  case True
  show ?thesis
  proof (cases "re_search server_smithery_match u")
    case None
    with True show ?thesis by (simp add: normalize_url_def)
  next
    case (Some n)
    then have "CHR ''/'' \<notin> set n" by (rule re_search_Some)
    then have "re_search server_smithery_match (''https://smithery.ai/server/'' @ n) = None"
      by (rule re_search_canonical)
    moreover have "normalize_url u = ''https://smithery.ai/server/'' @ n"
      using True Some by (simp add: normalize_url_def)
    ultimately show ?thesis by (simp add: normalize_url_def)
  qed
qed

theorem normalize_url_idempotent_witness:
  "normalize_url ''https://server.smithery.ai/slack'' = ''https://smithery.ai/server/slack'' \<and>
   normalize_url (normalize_url ''https://server.smithery.ai/slack'')
     = normalize_url ''https://server.smithery.ai/slack''"
proof -
  have "normalize_url ''https://server.smithery.ai/slack'' = ''https://smithery.ai/server/slack''"
    by code_simp
  then show ?thesis
    using normalize_url_idempotent [of "''https://server.smithery.ai/slack''"] by simp
qed

section \<open>The kebab-case sanitizer\<close>

lemma sub_runs_hyphen_no_double:
  "no_double (sub_runs (\<lambda>c. c = CHR ''-'') ''-'' s)"
proof (induction "\<lambda>c. c = CHR ''-''" "''-''" s rule: sub_runs.induct)
  case 1
  then show ?case by simp
next
  case (2 c cs)
  let ?P = "\<lambda>c. c = CHR ''-''"
  show ?case
  proof (cases "c = CHR ''-''")
    case True
    let ?d = "dropWhile ?P cs"
    have ih: "no_double (sub_runs ?P ''-'' ?d)" using 2(1) True by simp
    have eq: "sub_runs ?P ''-'' (c # cs) = CHR ''-'' # sub_runs ?P ''-'' ?d"
      using True by simp
    show ?thesis
    proof (cases ?d)
      case Nil
      then have "sub_runs ?P ''-'' ?d = []" by (simp only: sub_runs.simps)
      with eq show ?thesis by (simp only: no_double.simps)
    next
      case (Cons d ds)
      then have "d \<noteq> CHR ''-''" using hd_dropWhile[of ?P cs] by auto
      then have "sub_runs ?P ''-'' ?d = d # sub_runs ?P ''-'' ds"
        by (simp only: Cons sub_runs.simps if_False)
      with ih eq \<open>d \<noteq> CHR ''-''\<close> show ?thesis by (simp only: no_double.simps) simp
    qed
  next
    case False
    then have ih: "no_double (sub_runs ?P ''-'' cs)" using 2(2) by simp
    with False show ?thesis by (cases "sub_runs ?P ''-'' cs") auto
  qed
qed

lemma no_double_Cons: "no_double (a # s) \<Longrightarrow> no_double s"
  by (cases s) auto

lemma no_double_append: "no_double (a @ b) \<Longrightarrow> no_double b"
  by (induction a) (auto dest: no_double_Cons)

lemma no_double_prefix: "no_double (a @ b) \<Longrightarrow> no_double a"
  by (induction a rule: no_double.induct) auto

lemma no_double_not_contains: "no_double s \<Longrightarrow> \<not> contains ''--'' s"
proof
  assume nd: "no_double s" and "contains ''--'' s"
  then obtain a b where "s = a @ ''--'' @ b" by (auto simp: contains_iff)
  with nd have "no_double (''--'' @ b)" by (auto dest: no_double_append)
  then show False by simp
qed

lemma no_double_strip: "no_double s \<Longrightarrow> no_double (strip_chars P s)"
proof -
  assume nd: "no_double s"
  have "s = takeWhile P s @ dropWhile P s" by simp
  with nd have 1: "no_double (dropWhile P s)" by (metis no_double_append)
  let ?d = "dropWhile P s"
  have "rev ?d = takeWhile P (rev ?d) @ dropWhile P (rev ?d)" by simp
  then have "?d = rev (dropWhile P (rev ?d)) @ rev (takeWhile P (rev ?d))"
    by (metis rev_append rev_rev_ident)
  with 1 show ?thesis unfolding strip_chars_def by (metis no_double_prefix)
qed

lemma strip_chars_hd: "strip_chars P s \<noteq> [] \<Longrightarrow> \<not> P (hd (strip_chars P s))"
proof -
  assume ne: "strip_chars P s \<noteq> []"
  let ?d = "dropWhile P s"
  have dne: "?d \<noteq> []"
  proof
    assume a: "?d = []"
    have "strip_chars P s = []" unfolding strip_chars_def a by simp
    with ne show False by simp
  qed
  have "rev ?d = takeWhile P (rev ?d) @ dropWhile P (rev ?d)" by simp
  then have "?d = strip_chars P s @ rev (takeWhile P (rev ?d))"
    unfolding strip_chars_def by (metis rev_append rev_rev_ident)
  then have "hd ?d = hd (strip_chars P s)" using ne by (metis hd_append2)
  moreover have "\<not> P (hd ?d)" using dne by (rule hd_dropWhile)
  ultimately show ?thesis by simp
qed

lemma strip_chars_last: "strip_chars P s \<noteq> [] \<Longrightarrow> \<not> P (last (strip_chars P s))"
proof -
  assume ne: "strip_chars P s \<noteq> []"
  let ?r = "dropWhile P (rev (dropWhile P s))"
  have "?r \<noteq> []" using ne by (simp add: strip_chars_def)
  then have "\<not> P (hd ?r)" by (rule hd_dropWhile)
  moreover have "last (strip_chars P s) = hd ?r"
    using \<open>?r \<noteq> []\<close> by (simp add: strip_chars_def last_rev)
  ultimately show ?thesis by simp
qed

text \<open>
  C7. The sanitizer maps \<^verbatim>\<open>My Cool MCP!!\<close> to \<^verbatim>\<open>my-cool-mcp\<close> and \<^verbatim>\<open>___\<close> to the
  placeholder \<^verbatim>\<open>unknown-plugin\<close>; for every input its output is not empty, does not
  begin with a hyphen, does not end with one, and holds no two hyphens in a row.
\<close>

theorem sanitize_name_kebab:
  "sanitize_name ''My Cool MCP!!'' = ''my-cool-mcp'' \<and>
   sanitize_name ''___'' = ''unknown-plugin'' \<and>
   sanitize_name nm \<noteq> [] \<and>
   hd (sanitize_name nm) \<noteq> CHR ''-'' \<and>
   last (sanitize_name nm) \<noteq> CHR ''-'' \<and>
   \<not> contains ''--'' (sanitize_name nm)"
proof -
  have ex1: "sanitize_name ''My Cool MCP!!'' = ''my-cool-mcp''"
    by code_simp
  have ex2: "sanitize_name ''___'' = ''unknown-plugin''"
    by code_simp
  let ?P = "\<lambda>c. c = CHR ''-''"
  define t where "t = sub_runs ?P ''-'' (sub_runs (\<lambda>c. is_space c \<or> c = CHR ''_'') ''-''
      (filter (\<lambda>c. is_word c \<or> is_space c \<or> c = CHR ''-'') (lower nm)))"
  have san: "sanitize_name nm = py_or (strip_chars ?P t) ''unknown-plugin''"
    by (simp add: sanitize_name_def t_def Let_def)
  have nd: "no_double (strip_chars ?P t)"
    unfolding t_def by (rule no_double_strip, rule sub_runs_hyphen_no_double)
  show ?thesis
  proof (cases "strip_chars ?P t = []")
    case True
    then have "sanitize_name nm = ''unknown-plugin''" by (simp add: san py_or_def)
    with ex1 ex2 show ?thesis by simp
  next
    case False
    then have eq: "sanitize_name nm = strip_chars ?P t" by (simp add: san py_or_def)
    from False have "hd (strip_chars ?P t) \<noteq> CHR ''-''" by (rule strip_chars_hd)
    moreover from False have "last (strip_chars ?P t) \<noteq> CHR ''-''" by (rule strip_chars_last)
    moreover have "\<not> contains ''--'' (strip_chars ?P t)" using nd by (rule no_double_not_contains)
    ultimately show ?thesis using ex1 ex2 False eq by simp
  qed
qed

theorem sanitize_name_kebab_witness:
  "sanitize_name ''--a  __ -b--'' = ''a-b'' \<and>
   hd (sanitize_name ''--a  __ -b--'') \<noteq> CHR ''-'' \<and>
   last (sanitize_name ''--a  __ -b--'') \<noteq> CHR ''-'' \<and>
   \<not> contains ''--'' (sanitize_name ''--a  __ -b--'')"
proof -
  have "sanitize_name ''--a  __ -b--'' = ''a-b''" by code_simp
  then show ?thesis using sanitize_name_kebab [of "''--a  __ -b--''"] by simp
qed

section \<open>The marketplace catalog\<close>

lemma upsert_Nil: "upsert e [] = [e]"
  by (simp add: upsert_def)

lemma upsert_Cons:
  "upsert e (x # xs) = (if entry_name x = entry_name e then e # xs else x # upsert e xs)"
  by (simp add: upsert_def split: option.splits)

lemma upsert_absent:
  "find_index (\<lambda>p. entry_name p = entry_name e) xs = None \<Longrightarrow> upsert e xs = xs @ [e]"
  by (simp add: upsert_def)

lemma filter_upsert:
  "length (filter (\<lambda>p. entry_name p = entry_name e) xs) \<le> 1 \<Longrightarrow>
   filter (\<lambda>p. entry_name p = entry_name e) (upsert e xs) = [e]"
proof (induction xs)
  case Nil
  then show ?case by (simp add: upsert_Nil)
next
  case (Cons x xs)
  show ?case
  proof (cases "entry_name x = entry_name e")
    case True
    with Cons.prems have "filter (\<lambda>p. entry_name p = entry_name e) xs = []" by simp
    with True show ?thesis by (simp add: upsert_Cons)
  next
    case False
    with Cons show ?thesis by (simp add: upsert_Cons)
  qed
qed

lemma find_index_upsert_present:
  "entry_name e' = entry_name e \<Longrightarrow>
   find_index (\<lambda>p. entry_name p = entry_name e) (upsert e xs)
     = find_index (\<lambda>p. entry_name p = entry_name e) (upsert e' (upsert e xs))"
  by (induction xs) (auto simp: upsert_Nil upsert_Cons)

lemma find_index_upsert_Some:
  "find_index (\<lambda>p. entry_name p = entry_name e) (upsert e xs) \<noteq> None"
  by (induction xs) (auto simp: upsert_Nil upsert_Cons)

lemma length_upsert_present:
  "entry_name e' = entry_name e \<Longrightarrow> length (upsert e' (upsert e xs)) = length (upsert e xs)"
  by (induction xs) (auto simp: upsert_Nil upsert_Cons)

lemma upsert_other_positions:
  "entry_name e' = entry_name e \<Longrightarrow>
   find_index (\<lambda>p. entry_name p = entry_name e) (upsert e xs) \<noteq> Some j \<Longrightarrow>
   upsert e' (upsert e xs) ! j = upsert e xs ! j"
proof (induction xs arbitrary: j)
  case Nil
  then show ?case by (simp add: upsert_Nil upsert_Cons)
next
  case (Cons x xs)
  show ?case
  proof (cases "entry_name x = entry_name e")
    case True
    with Cons.prems show ?thesis by (cases j) (auto simp: upsert_Cons)
  next
    case False
    with Cons show ?thesis
      by (cases j) (auto simp: upsert_Cons split: option.splits)
  qed
qed

lemma entry_name_plugin_entry: "entry_name (plugin_entry m p i) = path_name p"
  by (simp add: plugin_entry_def)

lemma load_config_save:
  "load_config m (save_config m c w) = (Inr c, save_config m c w)"
  by (simp add: load_config_def save_config_def write_file_def)

lemma stored_plugins_save: "stored_plugins m (save_config m c w) = plugins c"
  by (simp add: stored_plugins_def save_config_def write_file_def)

lemma add_plugin_loaded:
  "load_config m w = (Inr cfg, w1) \<Longrightarrow>
   add_plugin m p i w =
     (Inr (), save_config m (cfg\<lparr>plugins := upsert (plugin_entry m p i) (plugins cfg)\<rparr>) w1)"
  by (simp add: add_plugin_def)

text \<open>
  C2, as the code has it. Take a catalog that loads and holds at most one entry under
  the plugin's name. Two calls of \<^verbatim>\<open>add_plugin\<close> for that name both succeed; the catalog
  then holds exactly one entry of that name, the one built by the second call; it
  stands at the index the entry of that name had after the first call; the length
  and every other position are as they were after the first call. When the name
  was absent at the start, the first call appended its entry at the end.
\<close>

theorem add_plugin_upsert:
  assumes ld: "load_config m w = (Inr cfg, w1)"
    and nm: "path_name p2 = path_name p1"
    and uniq: "length (filter (\<lambda>e. entry_name e = path_name p1) (plugins cfg)) \<le> 1"
  shows "fst (add_plugin m p1 i1 w) = Inr () \<and>
         fst (add_plugin m p2 i2 (snd (add_plugin m p1 i1 w))) = Inr () \<and>
         filter (\<lambda>e. entry_name e = path_name p1)
           (stored_plugins m (snd (add_plugin m p2 i2 (snd (add_plugin m p1 i1 w)))))
           = [plugin_entry m p2 i2] \<and>
         find_index (\<lambda>e. entry_name e = path_name p1)
           (stored_plugins m (snd (add_plugin m p1 i1 w))) \<noteq> None \<and>
         find_index (\<lambda>e. entry_name e = path_name p1)
           (stored_plugins m (snd (add_plugin m p2 i2 (snd (add_plugin m p1 i1 w)))))
           = find_index (\<lambda>e. entry_name e = path_name p1)
               (stored_plugins m (snd (add_plugin m p1 i1 w))) \<and>
         length (stored_plugins m (snd (add_plugin m p2 i2 (snd (add_plugin m p1 i1 w)))))
           = length (stored_plugins m (snd (add_plugin m p1 i1 w))) \<and>
         (\<forall>j. find_index (\<lambda>e. entry_name e = path_name p1)
                 (stored_plugins m (snd (add_plugin m p1 i1 w))) \<noteq> Some j \<longrightarrow>
              stored_plugins m (snd (add_plugin m p2 i2 (snd (add_plugin m p1 i1 w)))) ! j
                = stored_plugins m (snd (add_plugin m p1 i1 w)) ! j) \<and>
         (find_index (\<lambda>e. entry_name e = path_name p1) (plugins cfg) = None \<longrightarrow>
            stored_plugins m (snd (add_plugin m p1 i1 w)) = plugins cfg @ [plugin_entry m p1 i1])"
proof -
  let ?e1 = "plugin_entry m p1 i1" and ?e2 = "plugin_entry m p2 i2"
  let ?c1 = "cfg\<lparr>plugins := upsert ?e1 (plugins cfg)\<rparr>"
  let ?wa = "save_config m ?c1 w1"
  let ?c2 = "?c1\<lparr>plugins := upsert ?e2 (plugins ?c1)\<rparr>"
  have n1: "entry_name ?e1 = path_name p1" and n2: "entry_name ?e2 = path_name p1"
    using nm by (simp_all add: entry_name_plugin_entry)
  have a1: "add_plugin m p1 i1 w = (Inr (), ?wa)"
    using ld by (rule add_plugin_loaded)
  have a2: "add_plugin m p2 i2 ?wa = (Inr (), save_config m ?c2 ?wa)"
    by (rule add_plugin_loaded) (rule load_config_save)
  have sa: "stored_plugins m ?wa = upsert ?e1 (plugins cfg)"
    by (simp add: stored_plugins_save)
  have sb: "stored_plugins m (save_config m ?c2 ?wa) = upsert ?e2 (upsert ?e1 (plugins cfg))"
    by (simp add: stored_plugins_save)
  have f1: "filter (\<lambda>e. entry_name e = path_name p1) (upsert ?e1 (plugins cfg)) = [?e1]"
    using filter_upsert[of ?e1 "plugins cfg"] uniq by (simp add: n1)
  have f2: "filter (\<lambda>e. entry_name e = path_name p1) (upsert ?e2 (upsert ?e1 (plugins cfg))) = [?e2]"
    using filter_upsert[of ?e2 "upsert ?e1 (plugins cfg)"] f1 by (simp add: n2)
  have pos: "find_index (\<lambda>e. entry_name e = path_name p1) (upsert ?e2 (upsert ?e1 (plugins cfg)))
      = find_index (\<lambda>e. entry_name e = path_name p1) (upsert ?e1 (plugins cfg))"
    using find_index_upsert_present[of ?e2 ?e1 "plugins cfg"] by (simp add: n1 n2)
  have ex: "find_index (\<lambda>e. entry_name e = path_name p1) (upsert ?e1 (plugins cfg)) \<noteq> None"
    using find_index_upsert_Some[of ?e1 "plugins cfg"] by (simp add: n1)
  have len: "length (upsert ?e2 (upsert ?e1 (plugins cfg))) = length (upsert ?e1 (plugins cfg))"
    by (rule length_upsert_present) (simp add: n1 n2)
  have oth: "\<forall>j. find_index (\<lambda>e. entry_name e = path_name p1) (upsert ?e1 (plugins cfg)) \<noteq> Some j \<longrightarrow>
      upsert ?e2 (upsert ?e1 (plugins cfg)) ! j = upsert ?e1 (plugins cfg) ! j"
  proof (intro allI impI)
    fix j
    assume "find_index (\<lambda>e. entry_name e = path_name p1) (upsert ?e1 (plugins cfg)) \<noteq> Some j"
    then have "find_index (\<lambda>p. entry_name p = entry_name ?e1) (upsert ?e1 (plugins cfg)) \<noteq> Some j"
      by (simp add: n1)
    moreover have "entry_name ?e2 = entry_name ?e1" by (simp add: n1 n2)
    ultimately show "upsert ?e2 (upsert ?e1 (plugins cfg)) ! j = upsert ?e1 (plugins cfg) ! j"
      by (rule upsert_other_positions[rotated])
  qed
  have app: "find_index (\<lambda>e. entry_name e = path_name p1) (plugins cfg) = None \<longrightarrow>
      upsert ?e1 (plugins cfg) = plugins cfg @ [?e1]"
    using upsert_absent[of ?e1 "plugins cfg"] by (simp add: n1)
  show ?thesis
    unfolding a1 snd_conv fst_conv a2 sa sb
    using f2 pos ex len oth app by simp
qed

lemma example_load:
  "load_config example_marketplace (example_world ps) = (Inr (example_catalog ps), example_world ps)"
  by (simp add: load_config_def example_world_def)

theorem add_plugin_upsert_witness:
  "load_config example_marketplace (example_world [example_entry ''slack'' ''chat''])
     = (Inr (example_catalog [example_entry ''slack'' ''chat'']),
        example_world [example_entry ''slack'' ''chat'']) \<and>
   path_name example_plugin_path = path_name example_plugin_path \<and>
   length (filter (\<lambda>e. entry_name e = path_name example_plugin_path)
             (plugins (example_catalog [example_entry ''slack'' ''chat'']))) \<le> 1 \<and>
   filter (\<lambda>e. entry_name e = path_name example_plugin_path)
     (stored_plugins example_marketplace
        (snd (add_plugin example_marketplace example_plugin_path (example_info ''second'')
           (snd (add_plugin example_marketplace example_plugin_path (example_info ''first'')
              (example_world [example_entry ''slack'' ''chat'']))))))
     = [plugin_entry example_marketplace example_plugin_path (example_info ''second'')]"
proof -
  have h1: "load_config example_marketplace (example_world [example_entry ''slack'' ''chat''])
     = (Inr (example_catalog [example_entry ''slack'' ''chat'']),
        example_world [example_entry ''slack'' ''chat''])"
    by (rule example_load)
  have h2: "path_name example_plugin_path = path_name example_plugin_path" by simp
  have h3: "length (filter (\<lambda>e. entry_name e = path_name example_plugin_path)
             (plugins (example_catalog [example_entry ''slack'' ''chat'']))) \<le> 1"
    by (simp add: example_catalog_def example_entry_def example_plugin_path_def path_name_def)
  from add_plugin_upsert [OF h1 h2 h3, of "example_info ''first''" "example_info ''second''"]
  have "filter (\<lambda>e. entry_name e = path_name example_plugin_path)
     (stored_plugins example_marketplace
        (snd (add_plugin example_marketplace example_plugin_path (example_info ''second'')
           (snd (add_plugin example_marketplace example_plugin_path (example_info ''first'')
              (example_world [example_entry ''slack'' ''chat'']))))))
     = [plugin_entry example_marketplace example_plugin_path (example_info ''second'')]"
    by blast
  with h1 h2 h3 show ?thesis by blast
qed

text \<open>
  The claim C2 as stated, for every catalog state, fails on a catalog that already
  holds two entries of the name: each call replaces the first of them only, and
  both calls leave two entries of that name.
\<close>

theorem add_plugin_twice_counterexample:
  "map entry_name
     (stored_plugins example_marketplace
        (snd (add_plugin example_marketplace example_plugin_path (example_info ''second'')
           (snd (add_plugin example_marketplace example_plugin_path (example_info ''first'')
              (example_world [example_entry ''repomix'' ''a'', example_entry ''repomix'' ''b'']))))))
     = [''repomix'', ''repomix'']"
proof -
  let ?w = "example_world [example_entry ''repomix'' ''a'', example_entry ''repomix'' ''b'']"
  let ?c = "example_catalog [example_entry ''repomix'' ''a'', example_entry ''repomix'' ''b'']"
  let ?c1 = "?c\<lparr>plugins := upsert (plugin_entry example_marketplace example_plugin_path
      (example_info ''first'')) (plugins ?c)\<rparr>"
  have a1: "add_plugin example_marketplace example_plugin_path (example_info ''first'') ?w
      = (Inr (), save_config example_marketplace ?c1 ?w)"
    by (rule add_plugin_loaded [OF example_load])
  have a2: "add_plugin example_marketplace example_plugin_path (example_info ''second'')
        (save_config example_marketplace ?c1 ?w)
      = (Inr (), save_config example_marketplace
          (?c1\<lparr>plugins := upsert (plugin_entry example_marketplace example_plugin_path
              (example_info ''second'')) (plugins ?c1)\<rparr>)
          (save_config example_marketplace ?c1 ?w))"
    by (rule add_plugin_loaded [OF load_config_save])
  show ?thesis
    unfolding a1 snd_conv a2
    by (simp add: stored_plugins_save upsert_def plugin_entry_def example_catalog_def
        example_entry_def example_plugin_path_def path_name_def)
qed

lemma load_config_world:
  "load_config m w = (r, w1) \<Longrightarrow>
   w1 = (if files w (config_path m) = None then initialize_default m w else w)"
  by (auto simp: load_config_def Let_def split: option.splits file_content.splits)

text \<open>
  C10, as the code has it. Take any state from which the catalog loads: the catalog
  file holds a catalog, or it is missing and loading creates the default one.
  \<^verbatim>\<open>remove_plugin\<close> with a name that some entry carries returns \<^verbatim>\<open>True\<close> and saves the
  catalog without any entry of that name, the others in their order. With a name that
  no entry carries it returns \<^verbatim>\<open>False\<close> and writes nothing itself: the world is the one
  the loading left, which is the world as it was when the catalog file existed (no
  write in the trace, the file holding what it held) and the world with the default
  catalog just written when the file was missing.
\<close>

theorem remove_plugin_all:
  assumes "load_config m w = (Inr cfg, w1)"
  shows "w1 = (if files w (config_path m) = None then initialize_default m w else w) \<and>
         (if list_ex (\<lambda>p. entry_name p = nm) (plugins cfg)
          then remove_plugin m nm w =
                 (Inr True,
                  save_config m (cfg\<lparr>plugins := filter (\<lambda>p. entry_name p \<noteq> nm) (plugins cfg)\<rparr>) w1)
               \<and> stored_plugins m (snd (remove_plugin m nm w))
                    = filter (\<lambda>p. entry_name p \<noteq> nm) (plugins cfg)
               \<and> \<not> list_ex (\<lambda>p. entry_name p = nm) (stored_plugins m (snd (remove_plugin m nm w)))
          else remove_plugin m nm w = (Inr False, w1))"
proof -
  note ld = assms
  have w1: "w1 = (if files w (config_path m) = None then initialize_default m w else w)"
    using ld by (rule load_config_world)
  have rest: "if list_ex (\<lambda>p. entry_name p = nm) (plugins cfg)
          then remove_plugin m nm w =
                 (Inr True,
                  save_config m (cfg\<lparr>plugins := filter (\<lambda>p. entry_name p \<noteq> nm) (plugins cfg)\<rparr>) w1)
               \<and> stored_plugins m (snd (remove_plugin m nm w))
                    = filter (\<lambda>p. entry_name p \<noteq> nm) (plugins cfg)
               \<and> \<not> list_ex (\<lambda>p. entry_name p = nm) (stored_plugins m (snd (remove_plugin m nm w)))
          else remove_plugin m nm w = (Inr False, w1)"
  proof (cases "list_ex (\<lambda>p. entry_name p = nm) (plugins cfg)")
    case True
    then obtain x where "x \<in> set (plugins cfg)" and "\<not> entry_name x \<noteq> nm"
      by (auto simp: list_ex_iff)
    then have lt: "length (filter (\<lambda>p. entry_name p \<noteq> nm) (plugins cfg)) < length (plugins cfg)"
      by (rule length_filter_less)
    have r: "remove_plugin m nm w =
        (Inr True, save_config m (cfg\<lparr>plugins := filter (\<lambda>p. entry_name p \<noteq> nm) (plugins cfg)\<rparr>) w1)"
      using lt by (simp add: remove_plugin_def ld Let_def)
    show ?thesis using True unfolding r by (simp add: stored_plugins_save list_ex_iff)
  next
    case False
    then have "filter (\<lambda>p. entry_name p \<noteq> nm) (plugins cfg) = plugins cfg"
      by (simp add: list_ex_iff)
    then show ?thesis using False by (simp add: remove_plugin_def ld Let_def)
  qed
  from w1 rest show ?thesis by (rule conjI)
qed

lemma example_files:
  "files (example_world ps) (config_path example_marketplace) = Some (CatalogFile (example_catalog ps))"
  by (simp add: example_world_def)

lemma empty_load:
  "load_config example_marketplace empty_world
     = (Inr (example_catalog []), initialize_default example_marketplace empty_world)"
  by (simp add: load_config_def initialize_default_def initialize_def save_config_def
      write_file_def empty_world_def example_catalog_def Let_def)

theorem remove_plugin_all_witness:
  "load_config example_marketplace
     (example_world [example_entry ''a'' ''1'', example_entry ''b'' ''2'', example_entry ''a'' ''3''])
     = (Inr (example_catalog
          [example_entry ''a'' ''1'', example_entry ''b'' ''2'', example_entry ''a'' ''3'']),
        example_world [example_entry ''a'' ''1'', example_entry ''b'' ''2'', example_entry ''a'' ''3'']) \<and>
   fst (remove_plugin example_marketplace ''a''
     (example_world [example_entry ''a'' ''1'', example_entry ''b'' ''2'', example_entry ''a'' ''3'']))
     = Inr True \<and>
   stored_plugins example_marketplace (snd (remove_plugin example_marketplace ''a''
     (example_world [example_entry ''a'' ''1'', example_entry ''b'' ''2'', example_entry ''a'' ''3''])))
     = [example_entry ''b'' ''2''] \<and>
   remove_plugin example_marketplace ''c''
     (example_world [example_entry ''a'' ''1'', example_entry ''b'' ''2'', example_entry ''a'' ''3''])
     = (Inr False,
        example_world [example_entry ''a'' ''1'', example_entry ''b'' ''2'', example_entry ''a'' ''3'']) \<and>
   load_config example_marketplace empty_world
     = (Inr (example_catalog []), initialize_default example_marketplace empty_world) \<and>
   remove_plugin example_marketplace ''c'' empty_world
     = (Inr False, initialize_default example_marketplace empty_world)"
proof -
  let ?ps = "[example_entry ''a'' ''1'', example_entry ''b'' ''2'', example_entry ''a'' ''3'']"
  have h: "load_config example_marketplace (example_world ?ps)
      = (Inr (example_catalog ?ps), example_world ?ps)"
    by (rule example_load)
  have a: "list_ex (\<lambda>p. entry_name p = ''a'') (plugins (example_catalog ?ps))"
    by (simp add: example_catalog_def example_entry_def)
  have c: "\<not> list_ex (\<lambda>p. entry_name p = ''c'') (plugins (example_catalog ?ps))"
    by (simp add: example_catalog_def example_entry_def)
  have f: "filter (\<lambda>p. entry_name p \<noteq> ''a'') (plugins (example_catalog ?ps)) = [example_entry ''b'' ''2'']"
    by (simp add: example_catalog_def example_entry_def)
  have e: "\<not> list_ex (\<lambda>p. entry_name p = ''c'') (plugins (example_catalog []))"
    by (simp add: example_catalog_def)
  from remove_plugin_all [OF h, of "''a''"] a f
  have 1: "fst (remove_plugin example_marketplace ''a'' (example_world ?ps)) = Inr True"
    and 2: "stored_plugins example_marketplace
        (snd (remove_plugin example_marketplace ''a'' (example_world ?ps))) = [example_entry ''b'' ''2'']"
    by (simp_all add: stored_plugins_save)
  from remove_plugin_all [OF h, of "''c''"] c
  have 3: "remove_plugin example_marketplace ''c'' (example_world ?ps) = (Inr False, example_world ?ps)"
    by simp
  from remove_plugin_all [OF empty_load, of "''c''"] e
  have 4: "remove_plugin example_marketplace ''c'' empty_world
      = (Inr False, initialize_default example_marketplace empty_world)"
    by simp
  from h 1 2 3 4 empty_load show ?thesis by blast
qed

text \<open>When the catalog file is missing, loading creates the default catalog first; the
  call then finds no entry and returns \<^verbatim>\<open>False\<close>.\<close>

lemma remove_plugin_missing_file:
  assumes "files w (config_path m) = None"
  shows "remove_plugin m nm w = (Inr False, initialize_default m w)"
  using assms
  by (simp add: remove_plugin_def load_config_def initialize_default_def initialize_def
      save_config_def write_file_def Let_def)

text \<open>
  The claim C10 as stated, for every catalog state, fails where there is no catalog
  file yet: no entry matches and the call returns \<^verbatim>\<open>False\<close>, but the file that was
  missing now exists, written with the default catalog.
\<close>

theorem remove_plugin_missing_file_counterexample:
  "files empty_world (config_path example_marketplace) = None \<and>
   trace empty_world = [] \<and>
   fst (remove_plugin example_marketplace ''repomix'' empty_world) = Inr False \<and>
   files (snd (remove_plugin example_marketplace ''repomix'' empty_world))
       (config_path example_marketplace)
     = Some (CatalogFile (example_catalog [])) \<and>
   trace (snd (remove_plugin example_marketplace ''repomix'' empty_world))
     = [FileWrite [''/'', ''work'', ''.claude-plugin'', ''marketplace.json'']]"
proof -
  have n: "files empty_world (config_path example_marketplace) = None"
    by (simp add: empty_world_def)
  have r: "remove_plugin example_marketplace ''repomix'' empty_world
      = (Inr False, initialize_default example_marketplace empty_world)"
    using n by (rule remove_plugin_missing_file)
  show ?thesis
    unfolding r
    by (simp add: initialize_default_def initialize_def save_config_def write_file_def
        empty_world_def example_catalog_def config_path_def config_dir_def
        example_marketplace_def)
qed

section \<open>The URL classifier\<close>







section \<open>The descriptor builder\<close>

text \<open>
  C4, as the code has it. For a record with connection type \<^verbatim>\<open>http\<close> and a URL that is
  neither \<^verbatim>\<open>None\<close> nor empty, the serialized server configuration is exactly
  \<^verbatim>\<open>type = "http"\<close> and \<^verbatim>\<open>url\<close>, so it has no \<^verbatim>\<open>command\<close> and no \<^verbatim>\<open>args\<close>. For a record with
  connection type \<^verbatim>\<open>stdio\<close> and an empty install command, the command is \<^verbatim>\<open>npx\<close>.
\<close>

theorem create_plugin_config_connection:
  "(connection_type i = ''http'' \<and> http_url i = Some u \<and> u \<noteq> [] \<longrightarrow>
      emitted_server_config i pname = [(''type'', JStr ''http''), (''url'', JStr u)] \<and>
      map_of (emitted_server_config i pname) ''command'' = None \<and>
      map_of (emitted_server_config i pname) ''args'' = None) \<and>
   (connection_type i = ''stdio'' \<and> install_command i = [] \<longrightarrow>
      map_of (emitted_server_config i pname) ''command'' = Some (JStr ''npx''))"
  by (simp add: emitted_server_config_def PluginConfig_model_dump_def create_plugin_config_def
      MCPServerConfig_model_dump_def item_def py_or_def Let_def split: option.splits)

theorem create_plugin_config_connection_witness:
  "connection_type ((example_info ''d'')\<lparr>connection_type := ''http'', http_url := Some ''https://x/y''\<rparr>)
     = ''http'' \<and>
   emitted_server_config
     ((example_info ''d'')\<lparr>connection_type := ''http'', http_url := Some ''https://x/y''\<rparr>) ''repomix''
     = [(''type'', JStr ''http''), (''url'', JStr ''https://x/y'')] \<and>
   connection_type ((example_info ''d'')\<lparr>install_command := []\<rparr>) = ''stdio'' \<and>
   map_of (emitted_server_config ((example_info ''d'')\<lparr>install_command := []\<rparr>) ''repomix'') ''command''
     = Some (JStr ''npx'')"
proof -
  let ?h = "(example_info ''d'')\<lparr>connection_type := ''http'', http_url := Some ''https://x/y''\<rparr>"
  let ?s = "(example_info ''d'')\<lparr>install_command := []\<rparr>"
  have h: "connection_type ?h = ''http'' \<and> http_url ?h = Some ''https://x/y'' \<and> ''https://x/y'' \<noteq> []"
    by (simp add: example_info_def)
  have s: "connection_type ?s = ''stdio'' \<and> install_command ?s = []"
    by (simp add: example_info_def)
  from h create_plugin_config_connection [of ?h "''https://x/y''" "''repomix''"]
  have 1: "emitted_server_config ?h ''repomix'' = [(''type'', JStr ''http''), (''url'', JStr ''https://x/y'')]"
    by blast
  from s create_plugin_config_connection [of ?s _ "''repomix''"]
  have 2: "map_of (emitted_server_config ?s ''repomix'') ''command'' = Some (JStr ''npx'')"
    by blast
  from h s 1 2 show ?thesis by blast
qed

text \<open>
  The claim C4 as stated, for every URL that is not \<^verbatim>\<open>None\<close>, fails on the empty URL:
  the test \<^verbatim>\<open>mcp_info.http_url\<close> is false on it, and the builder emits the stdio
  configuration with its \<^verbatim>\<open>command\<close>.
\<close>

theorem create_plugin_config_empty_url_counterexample:
  "map_of (emitted_server_config
             ((example_info ''d'')\<lparr>connection_type := ''http'', http_url := Some []\<rparr>) ''repomix'')
     ''command'' = Some (JStr ''npx'')"
  by (simp add: emitted_server_config_def PluginConfig_model_dump_def create_plugin_config_def
      MCPServerConfig_model_dump_def item_def py_or_def Let_def example_info_def)

section \<open>The enhancement by the language model\<close>

lemma apply_enhancements_frame:
  "(description i \<noteq> [] \<longrightarrow> description (apply_enhancements i e) = description i) \<and>
   (tools i \<noteq> [] \<longrightarrow> tools (apply_enhancements i e) = tools i) \<and>
   (install_command i \<noteq> [] \<longrightarrow> install_command (apply_enhancements i e) = install_command i) \<and>
   (install_args i \<noteq> [] \<longrightarrow> install_args (apply_enhancements i e) = install_args i) \<and>
   name (apply_enhancements i e) = name i \<and>
   author (apply_enhancements i e) = author i \<and>
   connection_type (apply_enhancements i e) = connection_type i \<and>
   http_url (apply_enhancements i e) = http_url i \<and>
   env_vars (apply_enhancements i e) = env_vars i \<and>
   homepage (apply_enhancements i e) = homepage i \<and>
   source_url (apply_enhancements i e) = source_url i"
  by (simp add: apply_enhancements_def Let_def split: option.splits)

text \<open>
  C3. Whatever the page and whatever the language model answers, \<^verbatim>\<open>enhance_mcp_info\<close>
  keeps each of description, tools, install command and install arguments that is
  not empty in its input, and keeps every other field; when description, tools and
  install command are all present it returns the input record and leaves the world
  as it was, with no request in the trace.
\<close>

theorem enhance_mcp_info_frame:
  "(description i \<noteq> [] \<longrightarrow> description (fst (enhance_mcp_info x i html w)) = description i) \<and>
   (tools i \<noteq> [] \<longrightarrow> tools (fst (enhance_mcp_info x i html w)) = tools i) \<and>
   (install_command i \<noteq> [] \<longrightarrow>
      install_command (fst (enhance_mcp_info x i html w)) = install_command i) \<and>
   (install_args i \<noteq> [] \<longrightarrow> install_args (fst (enhance_mcp_info x i html w)) = install_args i) \<and>
   name (fst (enhance_mcp_info x i html w)) = name i \<and>
   author (fst (enhance_mcp_info x i html w)) = author i \<and>
   connection_type (fst (enhance_mcp_info x i html w)) = connection_type i \<and>
   http_url (fst (enhance_mcp_info x i html w)) = http_url i \<and>
   env_vars (fst (enhance_mcp_info x i html w)) = env_vars i \<and>
   homepage (fst (enhance_mcp_info x i html w)) = homepage i \<and>
   source_url (fst (enhance_mcp_info x i html w)) = source_url i \<and>
   (description i \<noteq> [] \<and> tools i \<noteq> [] \<and> install_command i \<noteq> [] \<longrightarrow>
      enhance_mcp_info x i html w = (i, w))"
proof (cases "description i = [] \<or> tools i = [] \<or> install_command i = []")
  case False
  then show ?thesis by (simp add: enhance_mcp_info_def)
next
  case True
  show ?thesis
  proof (cases "llm_enhance x (EnhancePrompt (name i) (py_or (description i) ''MISSING'')
      (map tool_name (tools i)) (py_or (install_command i) ''MISSING'') (install_args i)
      (take 10000 html))")
    case Failed
    with True show ?thesis by (auto simp: enhance_mcp_info_def Let_def)
  next
    case (Reply e)
    with True have "fst (enhance_mcp_info x i html w) = apply_enhancements i e"
      by (auto simp: enhance_mcp_info_def Let_def)
    with True show ?thesis using apply_enhancements_frame [of i e] by auto
  qed
qed

theorem enhance_mcp_info_frame_witness:
  "description (example_info ''Pack a repo'') \<noteq> [] \<and>
   install_command (example_info ''Pack a repo'') \<noteq> [] \<and>
   install_args (example_info ''Pack a repo'') \<noteq> [] \<and>
   tools (example_info ''Pack a repo'') = [] \<and>
   description (fst (enhance_mcp_info answering_externals (example_info ''Pack a repo'') ''page'' empty_world))
     = ''Pack a repo'' \<and>
   install_command (fst (enhance_mcp_info answering_externals (example_info ''Pack a repo'') ''page'' empty_world))
     = ''npx'' \<and>
   install_args (fst (enhance_mcp_info answering_externals (example_info ''Pack a repo'') ''page'' empty_world))
     = [''-y'', ''repomix-mcp''] \<and>
   tools (fst (enhance_mcp_info answering_externals (example_info ''Pack a repo'') ''page'' empty_world))
     = [\<lparr>tool_name = ''pack_codebase'', tool_description = ''Pack a repository''\<rparr>] \<and>
   enhance_mcp_info answering_externals
       ((example_info ''Pack a repo'')\<lparr>tools := [\<lparr>tool_name = ''pack'', tool_description = []\<rparr>]\<rparr>)
       ''page'' empty_world
     = ((example_info ''Pack a repo'')\<lparr>tools := [\<lparr>tool_name = ''pack'', tool_description = []\<rparr>]\<rparr>,
        empty_world)"
proof -
  let ?i = "example_info ''Pack a repo''"
  let ?j = "?i\<lparr>tools := [\<lparr>tool_name = ''pack'', tool_description = []\<rparr>]\<rparr>"
  have h: "description ?i \<noteq> [] \<and> install_command ?i \<noteq> [] \<and> install_args ?i \<noteq> [] \<and> tools ?i = []"
    by (simp add: example_info_def)
  have v: "description ?i = ''Pack a repo'' \<and> install_command ?i = ''npx'' \<and>
      install_args ?i = [''-y'', ''repomix-mcp'']"
    by (simp add: example_info_def)
  have g: "description ?j \<noteq> [] \<and> tools ?j \<noteq> [] \<and> install_command ?j \<noteq> []"
    by (simp add: example_info_def)
  have t: "tools (fst (enhance_mcp_info answering_externals ?i ''page'' empty_world))
      = [\<lparr>tool_name = ''pack_codebase'', tool_description = ''Pack a repository''\<rparr>]"
    by (simp add: enhance_mcp_info_def apply_enhancements_def answering_externals_def
        example_externals_def example_reply_def example_info_def truthy_def Let_def)
  from h v enhance_mcp_info_frame [of ?i answering_externals "''page''" empty_world]
  have 1: "description (fst (enhance_mcp_info answering_externals ?i ''page'' empty_world)) = ''Pack a repo''"
    and 2: "install_command (fst (enhance_mcp_info answering_externals ?i ''page'' empty_world)) = ''npx''"
    and 3: "install_args (fst (enhance_mcp_info answering_externals ?i ''page'' empty_world))
        = [''-y'', ''repomix-mcp'']"
    by simp_all
  from g enhance_mcp_info_frame [of ?j answering_externals "''page''" empty_world]
  have 4: "enhance_mcp_info answering_externals ?j ''page'' empty_world = (?j, empty_world)"
    by blast
  from h 1 2 3 t 4 show ?thesis by blast
qed

section \<open>The orchestrator\<close>

lemma contains_append: "contains sub t \<Longrightarrow> contains sub (s @ t)"
  by (induction s) auto

text \<open>
  C9. When the normalized URL matches neither pattern, \<^verbatim>\<open>convert\<close> raises a
  \<^verbatim>\<open>ConversionError\<close> whose message holds both supported URL templates, and returns the
  world as it was: no request, no file written, the catalog untouched. A later
  conversion therefore runs as if the failed one had not happened.
\<close>

theorem convert_unknown_url:
  assumes "detect_source (normalize_url u) = UNKNOWN"
  shows "convert cv x u w = (Inl (ConversionError (unknown_url_message (normalize_url u))), w) \<and>
         contains ''https://fastmcp.me/MCP/Details/{id}/{name}'' (unknown_url_message (normalize_url u)) \<and>
         contains ''https://smithery.ai/server/{name}'' (unknown_url_message (normalize_url u)) \<and>
         convert cv x u' (snd (convert cv x u w)) = convert cv x u' w"
proof -
  have c: "convert cv x u w = (Inl (ConversionError (unknown_url_message (normalize_url u))), w)"
    using assms by (simp add: convert_def Let_def)
  let ?tail = "[CHR 0x0A] @ ''Supported sources:'' @ [CHR 0x0A] @
     ''  - fastmcp.me: https://fastmcp.me/MCP/Details/{id}/{name}'' @ [CHR 0x0A] @
     ''  - smithery.ai: https://smithery.ai/server/{name}''"
  have m: "unknown_url_message (normalize_url u) = (''Unknown URL format: '' @ normalize_url u) @ ?tail"
    by (simp add: unknown_url_message_def)
  have t1: "contains ''https://fastmcp.me/MCP/Details/{id}/{name}'' ?tail" by code_simp
  have t2: "contains ''https://smithery.ai/server/{name}'' ?tail" by code_simp
  show ?thesis
    unfolding c m using t1 t2 by (simp only: contains_append snd_conv simp_thms)
qed

theorem convert_unknown_url_witness:
  "detect_source (normalize_url ''https://example.com/x'') = UNKNOWN \<and>
   convert example_converter (example_externals ''npx -y repomix-mcp'') ''https://example.com/x'' empty_world
     = (Inl (ConversionError (unknown_url_message (normalize_url ''https://example.com/x''))), empty_world)"
proof -
  have h: "detect_source (normalize_url ''https://example.com/x'') = UNKNOWN" by code_simp
  from convert_unknown_url [OF h] h show ?thesis by blast
qed

section \<open>The extractors\<close>

lemma fastmcp_install_command_nonempty:
  "FastMCPSource_extract_install_command x sp n = Inr (cmd, a) \<Longrightarrow>
   cmd \<in> {''npx'', ''uvx'', ''bunx'', ''npm''}"
  by (auto simp: FastMCPSource_extract_install_command_def Let_def
      split: option.splits sum.splits if_splits)

lemma fastmcp_default_command:
  "first_match [(pat_npx_y, ''npx''), (pat_uvx, ''uvx''), (pat_bunx, ''bunx''),
                (pat_npm_exec, ''npm'')] (get_text sp) = None \<Longrightarrow>
   first_package x [''@[^/'' @ [CHR 0x5C] @ ''s]+/'' @ n, ''mcp-server-'' @ n, n @ ''-mcp'']
     (get_text sp) = Inr None \<Longrightarrow>
   FastMCPSource_extract_install_command x sp n = Inr (''npx'', [''-y'', ''mcp-server-'' @ lower n])"
  by (simp add: FastMCPSource_extract_install_command_def Let_def)

lemma smithery_connection:
  "SmitherySource_determine_connection sp n = (ctype, cmd, a, hurl) \<Longrightarrow>
   (ctype = ''http'' \<and> hurl = Some (''https://server.smithery.ai/'' @ n)) \<or>
   (ctype = ''stdio'' \<and> cmd = ''npx'' \<and> hurl = None)"
  by (auto simp: SmitherySource_determine_connection_def Let_def
      split: option.splits if_splits)

lemma FastMCPSource_fetch_invariant:
  assumes "FastMCPSource_fetch x u w = (Inr i, w')"
  shows "record_invariant i"
proof -
  from assms obtain html g1 mcp_name cmd a where
    m: "FASTMCP_PATTERN_match u = Some (g1, mcp_name)" and
    c: "FastMCPSource_extract_install_command x (BeautifulSoup x html) mcp_name = Inr (cmd, a)" and
    ic: "install_command i = cmd" and
    ct: "connection_type i = (if http_url i \<noteq> None then ''http'' else ''stdio'')"
    by (auto simp: FastMCPSource_fetch_def client_get_def Let_def
        split: http_response.splits option.splits sum.splits prod.splits)
  from c have "cmd \<noteq> []" by (auto dest: fastmcp_install_command_nonempty)
  with ic ct show ?thesis by (auto simp: record_invariant_def)
qed

lemma SmitherySource_fetch_invariant:
  assumes "SmitherySource_fetch x u w = (Inr i, w')"
  shows "record_invariant i"
proof -
  from assms obtain sp n where
    "SmitherySource_determine_connection sp n
       = (connection_type i, install_command i, install_args i, http_url i)"
    by (auto simp: SmitherySource_fetch_def client_get_def Let_def
        split: http_response.splits option.splits sum.splits prod.splits)
  from smithery_connection [OF this] show ?thesis
    by (auto simp: record_invariant_def)
qed

text \<open>
  C1. Every record that the \<^verbatim>\<open>fetch\<close> of either extractor returns satisfies the invariant
  of the data model: connection type \<^verbatim>\<open>http\<close> comes with a URL, connection type \<^verbatim>\<open>stdio\<close>
  with a non-empty install command. This holds for every page, every answer of the
  web and every behaviour of the regular expression engine on the patterns built from
  the URL.
\<close>

theorem fetch_record_invariant:
  assumes "fetch s x u w = (Inr i, w')"
  shows "record_invariant i"
  using assms
  by (cases s) (auto simp: fetch_def dest: FastMCPSource_fetch_invariant SmitherySource_fetch_invariant)

theorem fetch_record_invariant_witness:
  "fetch FastMCPSource (example_externals ''Run: npx -y repomix-mcp'')
     ''https://fastmcp.me/MCP/Details/217/repomix'' empty_world
   = (Inr \<lparr>name = ''Repomix'', description = ''Pack a repo into AI-friendly text'', author = [],
           tools = [], install_command = ''npx'', install_args = [''-y'', ''repomix-mcp''],
           connection_type = ''stdio'', http_url = None, env_vars = [], homepage = None,
           source_url = ''https://fastmcp.me/MCP/Details/217/repomix''\<rparr>,
      snd (fetch FastMCPSource (example_externals ''Run: npx -y repomix-mcp'')
             ''https://fastmcp.me/MCP/Details/217/repomix'' empty_world)) \<and>
   record_invariant
     \<lparr>name = ''Repomix'', description = ''Pack a repo into AI-friendly text'', author = [],
      tools = [], install_command = ''npx'', install_args = [''-y'', ''repomix-mcp''],
      connection_type = ''stdio'', http_url = None, env_vars = [], homepage = None,
      source_url = ''https://fastmcp.me/MCP/Details/217/repomix''\<rparr> \<and>
   fetch SmitherySource (example_externals ''A hosted server'')
     ''https://server.smithery.ai/slack'' empty_world
   = (Inr \<lparr>name = ''Repomix'', description = ''Pack a repo into AI-friendly text'', author = [],
           tools = [], install_command = [], install_args = [],
           connection_type = ''http'', http_url = Some ''https://server.smithery.ai/slack'',
           env_vars = [], homepage = None, source_url = ''https://smithery.ai/server/slack''\<rparr>,
      snd (fetch SmitherySource (example_externals ''A hosted server'')
             ''https://server.smithery.ai/slack'' empty_world)) \<and>
   record_invariant
     \<lparr>name = ''Repomix'', description = ''Pack a repo into AI-friendly text'', author = [],
      tools = [], install_command = [], install_args = [],
      connection_type = ''http'', http_url = Some ''https://server.smithery.ai/slack'',
      env_vars = [], homepage = None, source_url = ''https://smithery.ai/server/slack''\<rparr>"
proof -
  let ?a = "fetch FastMCPSource (example_externals ''Run: npx -y repomix-mcp'')
     ''https://fastmcp.me/MCP/Details/217/repomix'' empty_world"
  let ?b = "fetch SmitherySource (example_externals ''A hosted server'')
     ''https://server.smithery.ai/slack'' empty_world"
  let ?i = "\<lparr>name = ''Repomix'', description = ''Pack a repo into AI-friendly text'', author = [],
           tools = [], install_command = ''npx'', install_args = [''-y'', ''repomix-mcp''],
           connection_type = ''stdio'', http_url = None, env_vars = [], homepage = None,
           source_url = ''https://fastmcp.me/MCP/Details/217/repomix''\<rparr>"
  let ?j = "\<lparr>name = ''Repomix'', description = ''Pack a repo into AI-friendly text'', author = [],
           tools = [], install_command = [], install_args = [],
           connection_type = ''http'', http_url = Some ''https://server.smithery.ai/slack'',
           env_vars = [], homepage = None, source_url = ''https://smithery.ai/server/slack''\<rparr>"
  have "fst ?a = Inr ?i" by code_simp
  then have a: "?a = (Inr ?i, snd ?a)" by (metis prod.collapse)
  have "fst ?b = Inr ?j" by code_simp
  then have b: "?b = (Inr ?j, snd ?b)" by (metis prod.collapse)
  from fetch_record_invariant [OF a] fetch_record_invariant [OF b] a b
  show ?thesis by blast
qed

section \<open>Environment variables\<close>

lemma fastmcp_collect_set:
  "set (fastmcp_collect acc ms) = set acc \<union> {v \<in> set ms. kept fastmcp_stoplist v}"
  unfolding fastmcp_collect_def
  by (induction ms arbitrary: acc) (auto simp: kept_def)

lemma fastmcp_vars_set:
  "set (fold (\<lambda>pat acc. fastmcp_collect acc (re_findall pat t))
             [pat_dollar_brace, pat_dollar, pat_assign, pat_env] [])
   = {v \<in> set (concat (map (\<lambda>pat. re_findall pat t)
                [pat_dollar_brace, pat_dollar, pat_assign, pat_env])). kept fastmcp_stoplist v}"
  by (auto simp: fastmcp_collect_set)

lemma length_list_of_set: "length (list_of_set x xs) = card (set xs)"
  by (simp add: list_of_set_def length_remdups_card_conv)

lemma set_list_of_set: "set (list_of_set x xs) = set xs"
  by (simp add: list_of_set_def)

lemma distinct_list_of_set: "distinct (list_of_set x xs)"
  by (simp add: list_of_set_def)

lemma fastmcp_env_vars:
  "distinct (FastMCPSource_extract_env_vars x sp) \<and>
   length (FastMCPSource_extract_env_vars x sp) \<le> 10 \<and>
   set (FastMCPSource_extract_env_vars x sp)
     \<subseteq> {v \<in> set (fastmcp_captures sp). kept fastmcp_stoplist v} \<and>
   length (FastMCPSource_extract_env_vars x sp)
     = min 10 (card {v \<in> set (fastmcp_captures sp). kept fastmcp_stoplist v})"
proof -
  let ?vars = "fold (\<lambda>pat acc. fastmcp_collect acc (re_findall pat (get_text sp)))
                 [pat_dollar_brace, pat_dollar, pat_assign, pat_env] []"
  have r: "FastMCPSource_extract_env_vars x sp = take 10 (list_of_set x ?vars)"
    by (simp add: FastMCPSource_extract_env_vars_def Let_def)
  have s: "set ?vars = {v \<in> set (fastmcp_captures sp). kept fastmcp_stoplist v}"
    unfolding fastmcp_captures_def by (rule fastmcp_vars_set)
  have "set (take 10 (list_of_set x ?vars)) \<subseteq> set (list_of_set x ?vars)"
    by (rule set_take_subset)
  then have sub: "set (take 10 (list_of_set x ?vars))
      \<subseteq> {v \<in> set (fastmcp_captures sp). kept fastmcp_stoplist v}"
    by (simp only: set_list_of_set s)
  have len: "length (take 10 (list_of_set x ?vars))
      = min 10 (card {v \<in> set (fastmcp_captures sp). kept fastmcp_stoplist v})"
    by (simp only: length_take length_list_of_set s min.commute)
  show ?thesis
    unfolding r using sub len by (simp add: distinct_list_of_set)
qed

lemma smithery_env_vars:
  "distinct (SmitherySource_extract_env_vars x sp) \<and>
   length (SmitherySource_extract_env_vars x sp) \<le> 10 \<and>
   set (SmitherySource_extract_env_vars x sp)
     \<subseteq> {v \<in> set (smithery_captures sp). kept smithery_stoplist v} \<and>
   length (SmitherySource_extract_env_vars x sp)
     = min 10 (card {v \<in> set (smithery_captures sp). kept smithery_stoplist v})"
proof -
  let ?f = "filter (kept smithery_stoplist) (list_of_set x (smithery_captures sp))"
  have k: "(\<lambda>var. 3 < length var \<and> \<not> stoplisted smithery_stoplist var) = kept smithery_stoplist"
    by (auto simp: kept_def)
  have r: "SmitherySource_extract_env_vars x sp = take 10 ?f"
    by (simp add: SmitherySource_extract_env_vars_def smithery_captures_def Let_def k)
  have d: "distinct ?f" by (simp add: distinct_list_of_set)
  have s: "set ?f = {v \<in> set (smithery_captures sp). kept smithery_stoplist v}"
    by (auto simp: set_list_of_set)
  have "length ?f = card (set ?f)" using d by (rule distinct_card [symmetric])
  then have l: "length ?f = card {v \<in> set (smithery_captures sp). kept smithery_stoplist v}"
    by (simp only: s)
  have "set (take 10 ?f) \<subseteq> set ?f" by (rule set_take_subset)
  then have sub: "set (take 10 ?f) \<subseteq> {v \<in> set (smithery_captures sp). kept smithery_stoplist v}"
    by (simp only: s)
  have len: "length (take 10 ?f)
      = min 10 (card {v \<in> set (smithery_captures sp). kept smithery_stoplist v})"
    using l by (simp add: min.commute)
  show ?thesis
    unfolding r using sub len d by simp
qed

text \<open>
  C8, as the code has it. For every page and every iteration order of the set, the
  list each extractor returns has no duplicates and at most 10 entries; each entry is
  a group captured by one of that extractor's patterns, is longer than 3 characters
  and, in lower case, contains no token of that extractor's own stoplist
  (\<^verbatim>\<open>url, uri, http, json, xml\<close> for FastMCP; \<^verbatim>\<open>type, string, number, boolean\<close> for
  Smithery); and the list holds 10 of the captured groups that pass these tests, or
  all of them when they are fewer.
\<close>

theorem extract_env_vars_filtered:
  "distinct (FastMCPSource_extract_env_vars x sp) \<and>
   length (FastMCPSource_extract_env_vars x sp) \<le> 10 \<and>
   set (FastMCPSource_extract_env_vars x sp)
     \<subseteq> {v \<in> set (fastmcp_captures sp). kept fastmcp_stoplist v} \<and>
   length (FastMCPSource_extract_env_vars x sp)
     = min 10 (card {v \<in> set (fastmcp_captures sp). kept fastmcp_stoplist v}) \<and>
   distinct (SmitherySource_extract_env_vars x sp) \<and>
   length (SmitherySource_extract_env_vars x sp) \<le> 10 \<and>
   set (SmitherySource_extract_env_vars x sp)
     \<subseteq> {v \<in> set (smithery_captures sp). kept smithery_stoplist v} \<and>
   length (SmitherySource_extract_env_vars x sp)
     = min 10 (card {v \<in> set (smithery_captures sp). kept smithery_stoplist v})"
  using fastmcp_env_vars [of x sp] smithery_env_vars [of x sp] by blast

theorem extract_env_vars_filtered_witness:
  "FastMCPSource_extract_env_vars (example_externals [])
     (example_soup ''export API_KEY=1 ${GITHUB_TOKEN} $HOME_DIR env: DATABASE_URL FOO=2 API_KEY=3'')
     = [''API_KEY'', ''HOME_DIR'', ''GITHUB_TOKEN''] \<and>
   distinct (FastMCPSource_extract_env_vars (example_externals [])
     (example_soup ''export API_KEY=1 ${GITHUB_TOKEN} $HOME_DIR env: DATABASE_URL FOO=2 API_KEY=3'')) \<and>
   length (FastMCPSource_extract_env_vars (example_externals [])
     (example_soup ''export API_KEY=1 ${GITHUB_TOKEN} $HOME_DIR env: DATABASE_URL FOO=2 API_KEY=3'')) \<le> 10"
proof -
  have "FastMCPSource_extract_env_vars (example_externals [])
     (example_soup ''export API_KEY=1 ${GITHUB_TOKEN} $HOME_DIR env: DATABASE_URL FOO=2 API_KEY=3'')
     = [''API_KEY'', ''HOME_DIR'', ''GITHUB_TOKEN'']"
    by code_simp
  with extract_env_vars_filtered [of "example_externals []"
      "example_soup ''export API_KEY=1 ${GITHUB_TOKEN} $HOME_DIR env: DATABASE_URL FOO=2 API_KEY=3''"]
  show ?thesis by blast
qed

text \<open>
  The claim C8 as stated gives every extractor a stoplist with the tokens \<^verbatim>\<open>URL\<close>,
  \<^verbatim>\<open>TYPE\<close> and \<^verbatim>\<open>STRING\<close>. The FastMCP extractor keeps \<^verbatim>\<open>TYPE\<close> and \<^verbatim>\<open>STRING_VALUE\<close>, and
  the Smithery extractor keeps \<^verbatim>\<open>API_URL\<close>.
\<close>

theorem extract_env_vars_stoplist_counterexample:
  "FastMCPSource_extract_env_vars (example_externals []) (example_soup ''TYPE=1'') = [''TYPE''] \<and>
   FastMCPSource_extract_env_vars (example_externals []) (example_soup ''STRING_VALUE=1'')
     = [''STRING_VALUE''] \<and>
   SmitherySource_extract_env_vars (example_externals []) (example_soup ''${API_URL}'') = [''API_URL'']"
  by code_simp

end
